theory Spec2Isabelle
  imports Main "HOL-Library.Sublist" "HOL-Library.Word"
begin

section \<open>Data model\<close>

text \<open>
  Values that \<^verbatim>\<open>json.loads\<close> produces and \<^verbatim>\<open>json.dumps\<close> consumes: the Python
  objects \<^verbatim>\<open>None\<close>, \<^verbatim>\<open>bool\<close>, \<^verbatim>\<open>int\<close>, \<^verbatim>\<open>float\<close> (its 64 bits, never inspected
  here), \<^verbatim>\<open>str\<close>, \<^verbatim>\<open>list\<close> and \<^verbatim>\<open>dict\<close> with string keys (an association list in
  insertion order).
\<close>

datatype pyval =
    PNone
  | PBool bool
  | PInt int
  | PFloat "64 word"
  | PStr string
  | PList "pyval list"
  | PDict "(string \<times> pyval) list"

text \<open>
  The exceptions that occur. \<open>RequestException\<close> stands for the class
  \<^verbatim>\<open>requests.RequestException\<close> with its subclasses (connection errors, timeouts);
  \<open>OpenAIError\<close> for whatever the OpenAI SDK raises; \<open>UnicodeEncodeError\<close> is what
  encoding a string as UTF-8 raises when the string holds a surrogate code point.
\<close>

datatype error =
    ValueError string
  | RuntimeError string
  | TypeError
  | IndexError
  | JSONDecodeError
  | RequestException
  | OpenAIError string
  | UnicodeEncodeError

text \<open>
  The response object of the OpenAI SDK, as far as the code reads it:
  \<^verbatim>\<open>response.choices[0].finish_reason\<close>, \<^verbatim>\<open>.message.content\<close>,
  \<^verbatim>\<open>.message.tool_calls\<close>, and for each call \<^verbatim>\<open>call.id\<close>,
  \<^verbatim>\<open>call.function.name\<close>, \<^verbatim>\<open>call.function.arguments\<close>.
\<close>

record function_call =
  name :: string
  arguments :: string

record tool_call =
  call_id :: string
  func :: function_call

record chat_message =
  content :: "string option"
  tool_calls :: "tool_call list option"

record choice =
  finish_reason :: string
  message :: chat_message

record response =
  choices :: "choice list"

text \<open>
  The dictionaries in the conversation buffer, one constructor for each shape the code
  builds: \<^verbatim>\<open>{"role": r, "content": c}\<close> (the system message, the user message, the
  caller's history), \<^verbatim>\<open>{"role": "assistant", "content": c, "tool_calls": t}\<close>, and
  \<^verbatim>\<open>{"role": "tool", "tool_call_id": i, "content": c}\<close>.
\<close>

datatype msg =
    Msg string string
  | AssistantMsg "string option" "tool_call list option"
  | ToolMsg string string

fun role :: "msg \<Rightarrow> string" where
  "role (Msg r c) = r"
| "role (AssistantMsg c t) = ''assistant''"
| "role (ToolMsg i c) = ''tool''"

fun tool_call_id :: "msg \<Rightarrow> string option" where
  "tool_call_id (ToolMsg i c) = Some i"
| "tool_call_id m = None"

section \<open>The world outside the functions\<close>

text \<open>
  What a call can change: the state \<open>ext\<close> of the outside (the model provider, the
  network), the list objects on the \<open>heap\<close> (a Python list is a mutable object, named
  by its position in \<open>heap\<close>), and a \<open>trace\<close> that records each completion request
  with the messages sent, each registry lookup, and each HTTP POST attempted.
\<close>

datatype event =
    Completion "msg list"
  | Lookup string
  | Post "(string \<times> string) list"

record 'x world =
  ext :: 'x
  trace :: "event list"
  heap :: "msg list list"

text \<open>
  The code's collaborators outside the repository, as parameters: the process
  environment behind \<^verbatim>\<open>os.getenv\<close>, the \<^verbatim>\<open>json\<close> module, Python's formatting of a
  value inside an f-string, the OpenAI SDK (its client constructor and
  \<^verbatim>\<open>client.chat.completions.create\<close>), \<^verbatim>\<open>requests.post\<close>, and the tool
  declarations of \<^verbatim>\<open>tools.schemas\<close>. The SDK's constructor builds the client object
  from the credential and the endpoint, or raises; it sends nothing, the SDK's requests
  being made by \<^verbatim>\<open>create\<close>. The completion request and the POST act on the outside.
\<close>

record ('x, 'c) env =
  os_getenv :: "string \<Rightarrow> string option"
  json_loads :: "string \<Rightarrow> error + pyval"
  json_dumps :: "pyval \<Rightarrow> string"
  py_str :: "pyval \<Rightarrow> string"
  OpenAI :: "string option \<Rightarrow> string \<Rightarrow> error + 'c"
  completions_create ::
    "'c \<Rightarrow> string \<Rightarrow> msg list \<Rightarrow> pyval list option \<Rightarrow> 'x \<Rightarrow> (error + response) \<times> 'x"
  requests_post ::
    "string \<Rightarrow> nat \<Rightarrow> (string \<times> string) list \<Rightarrow> 'x \<Rightarrow> (error + unit) \<times> 'x"
  schemas_tools :: "pyval list"

definition log :: "event \<Rightarrow> 'x world \<Rightarrow> 'x world" where
  "log e w = w\<lparr>trace := trace w @ [e]\<rparr>"

section \<open>config/settings.py\<close>

definition getenv_default :: "('x, 'c) env \<Rightarrow> string \<Rightarrow> string \<Rightarrow> string" where
  "getenv_default env k d = (case os_getenv env k of None \<Rightarrow> d | Some v \<Rightarrow> v)"

record provider_config =
  cfg_api_key :: "string option"
  cfg_base_url :: string
  cfg_model :: string

definition LLM_PROVIDER :: "('x, 'c) env \<Rightarrow> string" where
  "LLM_PROVIDER env = getenv_default env ''LLM_PROVIDER'' ''openai''"

definition LLM_CONFIGS :: "('x, 'c) env \<Rightarrow> (string \<times> provider_config) list" where
  "LLM_CONFIGS env =
     [(''openai'',
       \<lparr>cfg_api_key = os_getenv env ''OPENAI_API_KEY'',
        cfg_base_url = getenv_default env ''OPENAI_BASE_URL'' ''https://api.openai.com/v1'',
        cfg_model = getenv_default env ''OPENAI_MODEL'' ''gpt-4o-mini''\<rparr>),
      (''gemini'',
       \<lparr>cfg_api_key = os_getenv env ''GEMINI_API_KEY'',
        cfg_base_url = getenv_default env ''GEMINI_BASE_URL''
          ''https://generativelanguage.googleapis.com/v1beta/openai/'',
        cfg_model = getenv_default env ''GEMINI_MODEL'' ''gemini-2.5-flash''\<rparr>)]"

definition PUSHOVER_TOKEN :: "('x, 'c) env \<Rightarrow> string option" where
  "PUSHOVER_TOKEN env = os_getenv env ''PUSHOVER_TOKEN''"

definition PUSHOVER_USER :: "('x, 'c) env \<Rightarrow> string option" where
  "PUSHOVER_USER env = os_getenv env ''PUSHOVER_USER''"

section \<open>tools/notifications.py\<close>

text \<open>\<^verbatim>\<open>not v\<close> for a value that is \<^verbatim>\<open>None\<close> or a string.\<close>

definition falsy :: "string option \<Rightarrow> bool" where
  "falsy v = (case v of None \<Rightarrow> True | Some s \<Rightarrow> s = [])"

text \<open>
  \<^verbatim>\<open>push\<close>: return at once when the token or the user is missing; otherwise one POST,
  whose \<^verbatim>\<open>requests.RequestException\<close> is caught and whose response is dropped. Any
  other exception of the POST is not caught. The form fields \<^verbatim>\<open>token\<close> and \<^verbatim>\<open>user\<close>
  are the two variables, which are strings where the POST is reached (\<open>form_value\<close>).
\<close>

definition form_value :: "string option \<Rightarrow> string" where
  "form_value v = (case v of None \<Rightarrow> [] | Some s \<Rightarrow> s)"

definition push :: "('x, 'c) env \<Rightarrow> string \<Rightarrow> 'x world \<Rightarrow> (error + unit) \<times> 'x world" where
  "push env text w =
     (if falsy (PUSHOVER_TOKEN env) \<or> falsy (PUSHOVER_USER env) then (Inr (), w)
      else
        let data = [(''token'', form_value (PUSHOVER_TOKEN env)),
                    (''user'', form_value (PUSHOVER_USER env)),
                    (''message'', text)];
            w1 = log (Post data) w
        in case requests_post env ''https://api.pushover.net/1/messages.json'' 5 data (ext w1) of
             (Inl e, x) \<Rightarrow>
               if e = RequestException then (Inr (), w1\<lparr>ext := x\<rparr>) else (Inl e, w1\<lparr>ext := x\<rparr>)
           | (Inr r, x) \<Rightarrow> (Inr (), w1\<lparr>ext := x\<rparr>))"

section \<open>tools/handlers.py\<close>

text \<open>A value inside an f-string: a string stands for itself, anything else is formatted.\<close>

definition fmt :: "('x, 'c) env \<Rightarrow> pyval \<Rightarrow> string" where
  "fmt env v = (case v of PStr s \<Rightarrow> s | _ \<Rightarrow> py_str env v)"

definition recorded_ok :: pyval where
  "recorded_ok = PDict [(''recorded'', PStr ''ok'')]"

definition record_user_details ::
  "('x, 'c) env \<Rightarrow> pyval \<Rightarrow> pyval \<Rightarrow> pyval \<Rightarrow> 'x world \<Rightarrow> (error + pyval) \<times> 'x world" where
  "record_user_details env email name' notes w =
     (case push env (''User: '' @ fmt env name' @ '' | Email: '' @ fmt env email
                      @ '' | Notes: '' @ fmt env notes) w of
        (Inl e, w1) \<Rightarrow> (Inl e, w1)
      | (Inr u, w1) \<Rightarrow> (Inr recorded_ok, w1))"

definition record_unknown_question ::
  "('x, 'c) env \<Rightarrow> pyval \<Rightarrow> 'x world \<Rightarrow> (error + pyval) \<times> 'x world" where
  "record_unknown_question env question w =
     (case push env (''Recording '' @ fmt env question) w of
        (Inl e, w1) \<Rightarrow> (Inl e, w1)
      | (Inr u, w1) \<Rightarrow> (Inr recorded_ok, w1))"

text \<open>
  A call \<^verbatim>\<open>tool(**args)\<close> binds the keys of the dictionary to the parameters of the
  function: every parameter without a default must be among the keys, and every key
  must be a parameter; otherwise Python raises \<^verbatim>\<open>TypeError\<close>. A parameter takes the
  value under its key, or its default when the key is absent (\<open>arg\<close>; for a parameter
  without a default the key is present once the call is bound).
\<close>

definition binds :: "string list \<Rightarrow> string list \<Rightarrow> (string \<times> pyval) list \<Rightarrow> bool" where
  "binds required optional kwargs =
     (list_all (\<lambda>k. k \<in> set (map fst kwargs)) required
      \<and> list_all (\<lambda>k. k \<in> set (required @ optional)) (map fst kwargs))"

definition arg :: "(string \<times> pyval) list \<Rightarrow> string \<Rightarrow> pyval \<Rightarrow> pyval" where
  "arg kwargs k d = (case map_of kwargs k of None \<Rightarrow> d | Some v \<Rightarrow> v)"

type_synonym 'x tool = "(string \<times> pyval) list \<Rightarrow> 'x world \<Rightarrow> (error + pyval) \<times> 'x world"

definition record_user_details_kw :: "('x, 'c) env \<Rightarrow> 'x tool" where
  "record_user_details_kw env kwargs w =
     (if binds [''email''] [''name'', ''notes''] kwargs
      then record_user_details env (arg kwargs ''email'' PNone)
             (arg kwargs ''name'' (PStr ''Name not provided''))
             (arg kwargs ''notes'' (PStr ''not provided'')) w
      else (Inl TypeError, w))"

definition record_unknown_question_kw :: "('x, 'c) env \<Rightarrow> 'x tool" where
  "record_unknown_question_kw env kwargs w =
     (if binds [''question''] [] kwargs
      then record_unknown_question env (arg kwargs ''question'' PNone) w
      else (Inl TypeError, w))"

section \<open>tools/__init__.py\<close>

definition TOOL_REGISTRY :: "('x, 'c) env \<Rightarrow> (string \<times> 'x tool) list" where
  "TOOL_REGISTRY env =
     [(''record_user_details'', record_user_details_kw env),
      (''record_unknown_question'', record_unknown_question_kw env)]"

section \<open>agent/llm_client.py\<close>

record 'c LLMClient =
  provider :: string
  model :: string
  client :: 'c

text \<open>\<^verbatim>\<open>sep.join(xs)\<close>.\<close>

fun join :: "string \<Rightarrow> string list \<Rightarrow> string" where
  "join sep [] = []"
| "join sep [x] = x"
| "join sep (x # y # ys) = x @ sep @ join sep (y # ys)"

text \<open>
  \<^verbatim>\<open>LLMClient.__init__\<close>: the membership test on \<^verbatim>\<open>LLM_CONFIGS\<close>, then the SDK's
  client constructor with the provider's credential and endpoint.
\<close>

definition LLMClient_init ::
  "('x, 'c) env \<Rightarrow> string \<Rightarrow> 'x world \<Rightarrow> (error + 'c LLMClient) \<times> 'x world" where
  "LLMClient_init env p w =
     (case map_of (LLM_CONFIGS env) p of
        None \<Rightarrow>
          (Inl (ValueError (''Unsupported provider: '' @ p @ ''. Available providers: ''
                            @ join '', '' (map fst (LLM_CONFIGS env)))), w)
      | Some config \<Rightarrow>
          (case OpenAI env (cfg_api_key config) (cfg_base_url config) of
             Inl e \<Rightarrow> (Inl e, w)
           | Inr c \<Rightarrow> (Inr \<lparr>provider = p, model = cfg_model config, client = c\<rparr>, w)))"

definition create_llm_client ::
  "('x, 'c) env \<Rightarrow> string \<Rightarrow> 'x world \<Rightarrow> (error + 'c LLMClient) \<times> 'x world" where
  "create_llm_client env p w = LLMClient_init env p w"

text \<open>
  \<^verbatim>\<open>chat_completion\<close>: the tool declarations are passed on when the list is neither
  \<^verbatim>\<open>None\<close> nor empty; one request to the provider, whose outcome is returned as it is.
\<close>

definition chat_completion ::
  "('x, 'c) env \<Rightarrow> 'c LLMClient \<Rightarrow> msg list \<Rightarrow> pyval list option \<Rightarrow> 'x world
     \<Rightarrow> (error + response) \<times> 'x world" where
  "chat_completion env self messages tools w =
     (let kw_tools = (case tools of None \<Rightarrow> None | Some [] \<Rightarrow> None | Some (t # ts) \<Rightarrow> tools);
          w1 = log (Completion messages) w
      in case completions_create env (client self) (model self) messages kw_tools (ext w1) of
           (r, x) \<Rightarrow> (r, w1\<lparr>ext := x\<rparr>))"

section \<open>agent/me.py\<close>

text \<open>The fields of \<^verbatim>\<open>Me\<close> that \<^verbatim>\<open>chat\<close> reads.\<close>

record 'c Me =
  llm_client :: "'c LLMClient"
  system_prompt :: string

subsection \<open>List objects\<close>

definition new_list :: "msg list \<Rightarrow> 'x world \<Rightarrow> nat \<times> 'x world" where
  "new_list xs w = (length (heap w), w\<lparr>heap := heap w @ [xs]\<rparr>)"

definition deref :: "'x world \<Rightarrow> nat \<Rightarrow> msg list" where
  "deref w a = heap w ! a"

definition list_append :: "nat \<Rightarrow> msg \<Rightarrow> 'x world \<Rightarrow> 'x world" where
  "list_append a m w = w\<lparr>heap := (heap w)[a := heap w ! a @ [m]]\<rparr>"

definition list_extend :: "nat \<Rightarrow> msg list \<Rightarrow> 'x world \<Rightarrow> 'x world" where
  "list_extend a ms w = w\<lparr>heap := (heap w)[a := heap w ! a @ ms]\<rparr>"

subsection \<open>Handling the tool calls of one response\<close>

text \<open>\<^verbatim>\<open>tool(**args)\<close>: the decoded value must be a dictionary.\<close>

definition call_kwargs :: "'x tool \<Rightarrow> pyval \<Rightarrow> 'x world \<Rightarrow> (error + pyval) \<times> 'x world" where
  "call_kwargs tool args w = (case args of PDict kwargs \<Rightarrow> tool kwargs w | _ \<Rightarrow> (Inl TypeError, w))"

text \<open>
  The loop of \<^verbatim>\<open>_handle_tool_calls\<close> over the calls still to handle, with the local
  list \<^verbatim>\<open>results\<close> built so far. An exception leaves the loop, and \<^verbatim>\<open>results\<close> with it.
\<close>

fun handle_calls ::
  "('x, 'c) env \<Rightarrow> tool_call list \<Rightarrow> msg list \<Rightarrow> 'x world \<Rightarrow> (error + msg list) \<times> 'x world" where
  "handle_calls env [] results w = (Inr results, w)"
| "handle_calls env (call # calls) results w =
     (let w1 = log (Lookup (name (func call))) w in
      case map_of (TOOL_REGISTRY env) (name (func call)) of
        None \<Rightarrow> handle_calls env calls results w1
      | Some tool \<Rightarrow>
          (case json_loads env (arguments (func call)) of
             Inl e \<Rightarrow> (Inl e, w1)
           | Inr args \<Rightarrow>
               (case call_kwargs tool args w1 of
                  (Inl e, w2) \<Rightarrow> (Inl e, w2)
                | (Inr output, w2) \<Rightarrow>
                    handle_calls env calls
                      (results @ [ToolMsg (call_id call) (json_dumps env output)]) w2)))"

text \<open>
  \<^verbatim>\<open>_handle_tool_calls\<close>: iterating over \<^verbatim>\<open>None\<close> raises \<^verbatim>\<open>TypeError\<close>.
\<close>

definition handle_tool_calls ::
  "('x, 'c) env \<Rightarrow> tool_call list option \<Rightarrow> 'x world \<Rightarrow> (error + msg list) \<times> 'x world" where
  "handle_tool_calls env tcs w =
     (case tcs of None \<Rightarrow> (Inl TypeError, w) | Some calls \<Rightarrow> handle_calls env calls [] w)"

subsection \<open>The bounded tool loop\<close>

text \<open>
  \<^verbatim>\<open>for _ in range(5)\<close> with the rounds still to run; \<open>messages\<close> is the address of the
  conversation buffer. Falling out of the loop raises \<^verbatim>\<open>RuntimeError\<close>.
\<close>

fun chat_loop ::
  "('x, 'c) env \<Rightarrow> 'c Me \<Rightarrow> nat \<Rightarrow> nat \<Rightarrow> 'x world \<Rightarrow> (error + string option) \<times> 'x world" where
  "chat_loop env self messages 0 w =
     (Inl (RuntimeError ''Tool loop exceeded max iterations''), w)"
| "chat_loop env self messages (Suc n) w =
     (case chat_completion env (llm_client self) (deref w messages) (Some (schemas_tools env)) w of
        (Inl e, w1) \<Rightarrow> (Inl e, w1)
      | (Inr resp, w1) \<Rightarrow>
          (case choices resp of
             [] \<Rightarrow> (Inl IndexError, w1)
           | choice # others \<Rightarrow>
               if finish_reason choice = ''tool_calls'' then
                 (let assistant_msg = message choice;
                      w2 = list_append messages
                             (AssistantMsg (content assistant_msg) (tool_calls assistant_msg)) w1
                  in case handle_tool_calls env (tool_calls assistant_msg) w2 of
                       (Inl e, w3) \<Rightarrow> (Inl e, w3)
                     | (Inr tool_results, w3) \<Rightarrow>
                         chat_loop env self messages n (list_extend messages tool_results w3))
               else (Inr (content (message choice)), w1)))"

text \<open>
  \<^verbatim>\<open>chat\<close>: \<open>history\<close> is the address of the caller's list; the concatenation builds a
  new list object, the conversation buffer.
\<close>

definition chat ::
  "('x, 'c) env \<Rightarrow> 'c Me \<Rightarrow> string \<Rightarrow> nat \<Rightarrow> 'x world \<Rightarrow> (error + string option) \<times> 'x world" where
  "chat env self text history w =
     (case new_list ([Msg ''system'' (system_prompt self)] @ deref w history @ [Msg ''user'' text]) w of
        (messages, w0) \<Rightarrow> chat_loop env self messages 5 w0)"

section \<open>Vocabulary of the properties\<close>

text \<open>
  The keyword arguments that the function registered under a name accepts, read off its
  parameter list.
\<close>

definition accepts :: "string \<Rightarrow> (string \<times> pyval) list \<Rightarrow> bool" where
  "accepts n kwargs =
     (if n = ''record_user_details'' then binds [''email''] [''name'', ''notes''] kwargs
      else if n = ''record_unknown_question'' then binds [''question''] [] kwargs
      else False)"

text \<open>The POST came back, or failed in transport with \<^verbatim>\<open>requests.RequestException\<close>.\<close>

definition answered :: "error + unit \<Rightarrow> bool" where
  "answered r = (case r of Inr u \<Rightarrow> True | Inl e \<Rightarrow> e = RequestException)"

text \<open>
  The one POST that \<^verbatim>\<open>push\<close> makes for a text: its form, and its outcome in a state of
  the outside. The push returns when the destination is not configured (the POST is
  skipped) or this POST is answered.
\<close>

definition unconfigured :: "('x, 'c) env \<Rightarrow> bool" where
  "unconfigured env = (falsy (PUSHOVER_TOKEN env) \<or> falsy (PUSHOVER_USER env))"

definition pushover_form :: "('x, 'c) env \<Rightarrow> string \<Rightarrow> (string \<times> string) list" where
  "pushover_form env text =
     [(''token'', form_value (PUSHOVER_TOKEN env)),
      (''user'', form_value (PUSHOVER_USER env)),
      (''message'', text)]"

definition post_result :: "('x, 'c) env \<Rightarrow> string \<Rightarrow> 'x \<Rightarrow> error + unit" where
  "post_result env text x =
     fst (requests_post env ''https://api.pushover.net/1/messages.json'' 5 (pushover_form env text) x)"

definition push_returns :: "('x, 'c) env \<Rightarrow> string \<Rightarrow> 'x \<Rightarrow> bool" where
  "push_returns env text x = (unconfigured env \<or> answered (post_result env text x))"

text \<open>The text that the tool registered under a name pushes for its keyword arguments.\<close>

definition notification :: "('x, 'c) env \<Rightarrow> string \<Rightarrow> (string \<times> pyval) list \<Rightarrow> string" where
  "notification env n kwargs =
     (if n = ''record_user_details''
      then ''User: '' @ fmt env (arg kwargs ''name'' (PStr ''Name not provided''))
           @ '' | Email: '' @ fmt env (arg kwargs ''email'' PNone)
           @ '' | Notes: '' @ fmt env (arg kwargs ''notes'' (PStr ''not provided''))
      else ''Recording '' @ fmt env (arg kwargs ''question'' PNone))"

text \<open>A completion request answered by a response whose first choice requests tool calls.\<close>

definition requests_tools :: "error + response \<Rightarrow> bool" where
  "requests_tools r =
     (case r of
        Inl e \<Rightarrow> False
      | Inr resp \<Rightarrow>
          (case choices resp of [] \<Rightarrow> False | ch # chs \<Rightarrow> finish_reason ch = ''tool_calls''))"

definition always_tool_calls :: "('x, 'c) env \<Rightarrow> bool" where
  "always_tool_calls env =
     (\<forall>c m ms ts x. requests_tools (fst (completions_create env c m ms ts x)))"

fun is_completion :: "event \<Rightarrow> bool" where
  "is_completion (Completion ms) = True"
| "is_completion e = False"

definition completion_calls :: "'x world \<Rightarrow> nat" where
  "completion_calls w = length (filter is_completion (trace w))"

text \<open>
  The rounds of a run. \<open>tool_round\<close> is the outcome of handling the tool calls of the
  response that the round starting in a world receives, when that response requests
  tool calls; \<open>after_rounds\<close> is the world in which round \<open>k + 1\<close> starts, when the tool
  calls of the first \<open>k\<close> rounds were all handled.
\<close>

definition tool_round ::
  "('x, 'c) env \<Rightarrow> 'c Me \<Rightarrow> nat \<Rightarrow> 'x world \<Rightarrow> ((error + msg list) \<times> 'x world) option" where
  "tool_round env self a w =
     (case chat_completion env (llm_client self) (deref w a) (Some (schemas_tools env)) w of
        (Inl e, w1) \<Rightarrow> None
      | (Inr resp, w1) \<Rightarrow>
          (case choices resp of
             [] \<Rightarrow> None
           | ch # chs \<Rightarrow>
               if finish_reason ch = ''tool_calls''
               then Some (handle_tool_calls env (tool_calls (message ch))
                            (list_append a (AssistantMsg (content (message ch)) (tool_calls (message ch))) w1))
               else None))"

fun after_rounds ::
  "('x, 'c) env \<Rightarrow> 'c Me \<Rightarrow> nat \<Rightarrow> nat \<Rightarrow> 'x world \<Rightarrow> 'x world option" where
  "after_rounds env self a 0 w = Some w"
| "after_rounds env self a (Suc k) w =
     (case tool_round env self a w of
        Some (Inr rs, w3) \<Rightarrow> after_rounds env self a k (list_extend a rs w3)
      | _ \<Rightarrow> None)"

text \<open>
  One round's contribution to the buffer: the assistant message with the requests it
  carries, then the tool results. The round is well answered when the identifiers of
  its results are, in this order, identifiers among its requests.
\<close>

type_synonym round = "string option \<times> tool_call list option \<times> msg list"

fun round_msgs :: "round \<Rightarrow> msg list" where
  "round_msgs (c, tcs, rs) = AssistantMsg c tcs # rs"

fun well_answered :: "round \<Rightarrow> bool" where
  "well_answered (c, tcs, rs) =
     subseq (map tool_call_id rs)
       (map (\<lambda>call. Some (call_id call)) (case tcs of None \<Rightarrow> [] | Some calls \<Rightarrow> calls))"

text \<open>A call is registered when the lookup of its name in the registry finds a tool.\<close>

definition registered :: "('x, 'c) env \<Rightarrow> tool_call \<Rightarrow> bool" where
  "registered env call = (map_of (TOOL_REGISTRY env) (name (func call)) \<noteq> None)"

text \<open>
  A step leaves the list objects and the completion requests of the trace as they were
  (it may have looked tools up and posted notifications).
\<close>

definition untouched :: "'x world \<Rightarrow> 'x world \<Rightarrow> bool" where
  "untouched w w' =
     (heap w' = heap w \<and> filter is_completion (trace w') = filter is_completion (trace w))"

section \<open>An example environment\<close>

text \<open>
  A small environment to run the definitions on: a JSON decoder and encoder that agree
  with \<^verbatim>\<open>json.loads\<close> and \<^verbatim>\<open>json.dumps\<close> on the texts and values of the examples,
  an SDK constructor that asks for a credential (the argument, or else the variable
  \<^verbatim>\<open>OPENAI_API_KEY\<close>), a provider that answers from a script or always with the same
  response, and a POST with a fixed outcome.
\<close>

definition question_args :: string where
  \<open>question_args = ''{"question": "Can I reach him directly?"}''\<close>

definition truncated_args :: string where
  \<open>truncated_args = ''{"question": "Can I rea''\<close>

definition sample_loads :: "string \<Rightarrow> error + pyval" where
  "sample_loads s =
     (if s = question_args then Inr (PDict [(''question'', PStr ''Can I reach him directly?'')])
      else if s = ''{}'' then Inr (PDict [])
      else Inl JSONDecodeError)"

fun sample_dumps :: "pyval \<Rightarrow> string" where
  \<open>sample_dumps (PDict [(k, PStr v)]) = ''{"'' @ k @ ''": "'' @ v @ ''"}''\<close>
| \<open>sample_dumps v = ''null''\<close>

definition missing_key :: string where
  "missing_key = ''The api_key client option must be set either by passing api_key to the ''
     @ ''client or by setting the OPENAI_API_KEY environment variable''"

definition scripted :: "response list \<Rightarrow> (error + response) \<times> response list" where
  "scripted script =
     (case script of
        [] \<Rightarrow> (Inl (OpenAIError ''Connection error.''), [])
      | r # rs \<Rightarrow> (Inr r, rs))"

definition repeating :: "response \<Rightarrow> response list \<Rightarrow> (error + response) \<times> response list" where
  "repeating r script = (Inr r, script)"

definition sample_env ::
  "(string \<times> string) list \<Rightarrow> (response list \<Rightarrow> (error + response) \<times> response list)
     \<Rightarrow> error + unit \<Rightarrow> (response list, string) env" where
  "sample_env vars llm outcome =
     \<lparr>os_getenv = map_of vars,
      json_loads = sample_loads,
      json_dumps = sample_dumps,
      py_str = (\<lambda>v. ''None''),
      OpenAI = (\<lambda>k u. case (case k of None \<Rightarrow> map_of vars ''OPENAI_API_KEY'' | Some key \<Rightarrow> k) of
                  None \<Rightarrow> Inl (OpenAIError missing_key)
                | Some key \<Rightarrow> Inr key),
      completions_create = (\<lambda>c m ms ts x. llm x),
      requests_post = (\<lambda>url t d x. (outcome, x)),
      schemas_tools = [PDict [(''type'', PStr ''function'')]]\<rparr>"

definition pushover :: "(string \<times> string) list" where
  "pushover = [(''PUSHOVER_TOKEN'', ''token''), (''PUSHOVER_USER'', ''user'')]"

definition world0 :: "response list \<Rightarrow> response list world" where
  "world0 script =
     \<lparr>ext = script, trace = [], heap = [[Msg ''user'' ''Hi'', Msg ''assistant'' ''Hello'']]\<rparr>"

definition sample_me :: "string Me" where
  "sample_me =
     \<lparr>llm_client = \<lparr>provider = ''openai'', model = ''gpt-4o-mini'', client = ''sk-test''\<rparr>,
      system_prompt = ''You are acting as Muhammad Ibrahim Malik.''\<rparr>"

definition question_call :: tool_call where
  "question_call =
     \<lparr>call_id = ''call_1'', func = \<lparr>name = ''record_unknown_question'', arguments = question_args\<rparr>\<rparr>"

definition truncated_call :: tool_call where
  "truncated_call =
     \<lparr>call_id = ''call_1'', func = \<lparr>name = ''record_unknown_question'', arguments = truncated_args\<rparr>\<rparr>"

definition unknown_call :: tool_call where
  "unknown_call = \<lparr>call_id = ''call_0'', func = \<lparr>name = ''lookup_weather'', arguments = ''{}''\<rparr>\<rparr>"

definition tools_response :: "tool_call list \<Rightarrow> response" where
  "tools_response calls =
     \<lparr>choices = [\<lparr>finish_reason = ''tool_calls'',
                  message = \<lparr>content = None, tool_calls = Some calls\<rparr>\<rparr>]\<rparr>"

definition looping_env :: "tool_call \<Rightarrow> (response list, string) env" where
  "looping_env call = sample_env [] (repeating (tools_response [call])) (Inr ())"

definition text_response :: "string option \<Rightarrow> response" where
  "text_response t =
     \<lparr>choices = [\<lparr>finish_reason = ''stop'', message = \<lparr>content = t, tool_calls = None\<rparr>\<rparr>]\<rparr>"

definition empty_call :: tool_call where
  "empty_call =
     \<lparr>call_id = ''call_2'', func = \<lparr>name = ''record_unknown_question'', arguments = ''{}''\<rparr>\<rparr>"

definition recorded_ok_text :: string where
  \<open>recorded_ok_text = ''{"recorded": "ok"}''\<close>

text \<open>
  The scenario of the specification: the visitor asks, the model requests
  \<^verbatim>\<open>record_unknown_question\<close>, then answers in plain text. The notification is
  configured and its POST fails in transport.
\<close>

definition scenario_env :: "(response list, string) env" where
  "scenario_env = sample_env pushover scripted (Inl RequestException)"

definition scenario_world :: "response list world" where
  "scenario_world = world0 [tools_response [question_call], text_response (Some ''Sure, by email.'')]"


definition unkeyed_env :: "(response list, string) env" where
  "unkeyed_env = sample_env [] scripted (Inr ())"

text \<open>The notification configured, and its POST delivered.\<close>

definition delivering_env :: "(response list, string) env" where
  "delivering_env = sample_env pushover scripted (Inr ())"

text \<open>
  A question that holds a lone surrogate, which \<^verbatim>\<open>json.loads\<close> accepts from the escape
  of the code point D800. Strings are UTF-8 bytes here, and the surrogate is the three bytes
  ED A0 80 that no UTF-8 encoder produces: \<^verbatim>\<open>requests.post\<close> encodes the form values
  before it sends anything and raises \<^verbatim>\<open>UnicodeEncodeError\<close> on such a value.
\<close>

definition surrogate_args :: string where
  \<open>surrogate_args = ''{"question": "'' @ [CHR 0x5C] @ ''ud800"}''\<close>

definition lone_surrogate :: string where
  "lone_surrogate = [CHR 0xED, CHR 0xA0, CHR 0x80]"

definition surrogate_call :: tool_call where
  "surrogate_call =
     \<lparr>call_id = ''call_3'', func = \<lparr>name = ''record_unknown_question'', arguments = surrogate_args\<rparr>\<rparr>"

fun has_surrogate :: "string \<Rightarrow> bool" where
  "has_surrogate (a # b # s) =
     ((a = CHR 0xED \<and> 160 \<le> (of_char b :: nat)) \<or> has_surrogate (b # s))"
| "has_surrogate s = False"

definition encoding_env :: "(response list, string) env" where
  "encoding_env =
     scenario_env
       \<lparr>json_loads :=
          (\<lambda>s. if s = surrogate_args then Inr (PDict [(''question'', PStr lone_surrogate)])
               else sample_loads s),
        requests_post :=
          (\<lambda>url t d x. if list_ex (\<lambda>field. has_surrogate (snd field)) d
                        then (Inl UnicodeEncodeError, x)
                        else (Inl RequestException, x))\<rparr>"

section \<open>Auxiliary facts\<close>

subsection \<open>Notifications and tools\<close>

lemma push_skip:
  "falsy (PUSHOVER_TOKEN env) \<or> falsy (PUSHOVER_USER env) \<Longrightarrow> push env text w = (Inr (), w)"
  by (simp add: push_def)

lemma push_fst:
  "fst (push env text w)
     = (if push_returns env text (ext w) then Inr () else post_result env text (ext w))"
proof (cases "unconfigured env")
  case True
  then show ?thesis by (simp add: push_def push_returns_def unconfigured_def)
next
  case False
  obtain r x where rx:
    "requests_post env ''https://api.pushover.net/1/messages.json'' 5 (pushover_form env text) (ext w)
       = (r, x)"
    by (cases "requests_post env ''https://api.pushover.net/1/messages.json'' 5
                 (pushover_form env text) (ext w)")
  then have p: "post_result env text (ext w) = r" by (simp add: post_result_def)
  from False rx have "fst (push env text w) = (if answered r then Inr () else r)"
    by (cases r) (auto simp: push_def unconfigured_def pushover_form_def Let_def log_def answered_def)
  with False p show ?thesis by (simp add: push_returns_def)
qed

lemma untouched_refl: "untouched w w"
  by (simp add: untouched_def)

lemma untouched_trans: "untouched w w1 \<Longrightarrow> untouched w1 w2 \<Longrightarrow> untouched w w2"
  by (simp add: untouched_def)

lemma untouched_log_Lookup: "untouched w (log (Lookup n) w)"
  by (simp add: untouched_def log_def)

lemma push_untouched: "untouched w (snd (push env text w))"
  by (auto simp: push_def Let_def log_def untouched_def split: prod.splits sum.splits)

lemma record_user_details_untouched:
  "untouched w (snd (record_user_details env email name' notes w))"
proof -
  let ?t = "''User: '' @ fmt env name' @ '' | Email: '' @ fmt env email @ '' | Notes: '' @ fmt env notes"
  obtain r w1 where p: "push env ?t w = (r, w1)" by (cases "push env ?t w")
  with push_untouched [of w env ?t] have "untouched w w1" by simp
  with p show ?thesis
    by (cases r) (simp_all add: record_user_details_def)
qed

lemma record_unknown_question_untouched:
  "untouched w (snd (record_unknown_question env question w))"
proof -
  let ?t = "''Recording '' @ fmt env question"
  obtain r w1 where p: "push env ?t w = (r, w1)" by (cases "push env ?t w")
  with push_untouched [of w env ?t] have "untouched w w1" by simp
  with p show ?thesis
    by (cases r) (simp_all add: record_unknown_question_def)
qed

lemma registry_cases:
  assumes "map_of (TOOL_REGISTRY env) n = Some tool"
  shows "n = ''record_user_details'' \<and> tool = record_user_details_kw env
       \<or> n = ''record_unknown_question'' \<and> tool = record_unknown_question_kw env"
  using assms by (auto simp: TOOL_REGISTRY_def split: if_splits)

lemma registered_tool_untouched:
  assumes "map_of (TOOL_REGISTRY env) n = Some tool"
  shows "untouched w (snd (tool kwargs w))"
  using registry_cases [OF assms]
  by (auto simp: record_user_details_kw_def record_unknown_question_kw_def untouched_refl
      record_user_details_untouched record_unknown_question_untouched)

lemma call_kwargs_untouched:
  assumes "map_of (TOOL_REGISTRY env) n = Some tool"
  shows "untouched w (snd (call_kwargs tool args w))"
  by (cases args) (simp_all add: call_kwargs_def untouched_refl registered_tool_untouched [OF assms])

lemma handle_calls_untouched: "untouched w (snd (handle_calls env calls results w))"
proof (induction calls arbitrary: results w)
  case Nil
  show ?case by (simp add: untouched_refl)
next
  case (Cons call calls)
  let ?w1 = "log (Lookup (name (func call))) w"
  have w1: "untouched w ?w1" by (rule untouched_log_Lookup)
  show ?case
  proof (cases "map_of (TOOL_REGISTRY env) (name (func call))")
    case None
    with untouched_trans [OF w1 Cons.IH [of ?w1 results]] show ?thesis by (simp add: Let_def)
  next
    case (Some tool)
    show ?thesis
    proof (cases "json_loads env (arguments (func call))")
      case (Inl e)
      with Some w1 show ?thesis by (simp add: Let_def)
    next
      case (Inr args)
      obtain r w2 where k: "call_kwargs tool args ?w1 = (r, w2)" by (cases "call_kwargs tool args ?w1")
      with call_kwargs_untouched [OF Some, of ?w1 args] have "untouched ?w1 w2" by simp
      with w1 have w2: "untouched w w2" by (rule untouched_trans)
      show ?thesis
      proof (cases r)
        case (Inl e)
        with Some Inr k w2 show ?thesis by (simp add: Let_def)
      next
        case (Inr out)
        with Some \<open>json_loads env (arguments (func call)) = Inr args\<close> k
          untouched_trans [OF w2 Cons.IH [of w2 "results @ [ToolMsg (call_id call) (json_dumps env out)]"]]
        show ?thesis by (simp add: Let_def)
      qed
    qed
  qed
qed

lemma handle_tool_calls_untouched: "untouched w (snd (handle_tool_calls env tcs w))"
  by (cases tcs) (simp_all add: handle_tool_calls_def untouched_refl handle_calls_untouched)

lemma handle_calls_append:
  "handle_calls env (xs @ ys) results w =
     (case handle_calls env xs results w of
        (Inl e, w1) \<Rightarrow> (Inl e, w1)
      | (Inr rs, w1) \<Rightarrow> handle_calls env ys rs w1)"
  by (induction xs arbitrary: results w) (auto simp: Let_def split: option.splits sum.splits prod.splits)

lemma handle_calls_results:
  "handle_calls env calls results w = (Inr final, w') \<Longrightarrow>
     \<exists>new. final = results @ new
       \<and> map tool_call_id new = map (\<lambda>call. Some (call_id call)) (filter (registered env) calls)"
proof (induction calls arbitrary: results w)
  case Nil
  then show ?case by simp
next
  case (Cons call calls)
  show ?case
  proof (cases "map_of (TOOL_REGISTRY env) (name (func call))")
    case None
    with Cons.prems have "handle_calls env calls results (log (Lookup (name (func call))) w) = (Inr final, w')"
      by (simp add: Let_def)
    moreover from None have "\<not> registered env call" by (simp add: registered_def)
    ultimately show ?thesis using Cons.IH by simp
  next
    case (Some tool)
    with Cons.prems obtain out w2 where
      "handle_calls env calls (results @ [ToolMsg (call_id call) (json_dumps env out)]) w2 = (Inr final, w')"
      by (auto simp: Let_def split: sum.splits prod.splits)
    from Cons.IH [OF this] obtain new where
      "final = (results @ [ToolMsg (call_id call) (json_dumps env out)]) @ new"
      "map tool_call_id new = map (\<lambda>call. Some (call_id call)) (filter (registered env) calls)"
      by blast
    moreover from Some have "registered env call" by (simp add: registered_def)
    ultimately show ?thesis
      by (intro exI [of _ "ToolMsg (call_id call) (json_dumps env out) # new"]) simp
  qed
qed

lemma handle_tool_calls_well_answered:
  assumes "handle_tool_calls env tcs w = (Inr rs, w')"
  shows "well_answered (c, tcs, rs)"
proof (cases tcs)
  case None
  with assms show ?thesis by (simp add: handle_tool_calls_def)
next
  case (Some calls)
  with assms have "handle_calls env calls [] w = (Inr rs, w')" by (simp add: handle_tool_calls_def)
  from handle_calls_results [OF this]
  have "map tool_call_id rs = map (\<lambda>call. Some (call_id call)) (filter (registered env) calls)" by simp
  then have "subseq (map tool_call_id rs) (map (\<lambda>call. Some (call_id call)) calls)"
    by (simp add: subseq_map)
  with Some show ?thesis by simp
qed

lemma chat_completion_effect:
  assumes "chat_completion env c ms ts w = (r, w1)"
  shows "heap w1 = heap w" and "trace w1 = trace w @ [Completion ms]"
  using assms by (auto simp: chat_completion_def Let_def log_def split: prod.splits)

lemma chat_loop_Suc_cases:
  assumes "chat_loop env self a (Suc n) w = (r, w')"
  obtains
    (provider_error) e where
      "chat_completion env (llm_client self) (deref w a) (Some (schemas_tools env)) w = (Inl e, w')"
      "r = Inl e"
  | (no_choice) resp where
      "chat_completion env (llm_client self) (deref w a) (Some (schemas_tools env)) w = (Inr resp, w')"
      "choices resp = []" "r = Inl IndexError"
  | (answer) resp ch chs where
      "chat_completion env (llm_client self) (deref w a) (Some (schemas_tools env)) w = (Inr resp, w')"
      "choices resp = ch # chs" "finish_reason ch \<noteq> ''tool_calls''" "r = Inr (content (message ch))"
  | (tool_error) resp ch chs w1 e where
      "chat_completion env (llm_client self) (deref w a) (Some (schemas_tools env)) w = (Inr resp, w1)"
      "choices resp = ch # chs" "finish_reason ch = ''tool_calls''"
      "handle_tool_calls env (tool_calls (message ch))
         (list_append a (AssistantMsg (content (message ch)) (tool_calls (message ch))) w1) = (Inl e, w')"
      "r = Inl e"
  | (next_round) resp ch chs w1 rs w3 where
      "chat_completion env (llm_client self) (deref w a) (Some (schemas_tools env)) w = (Inr resp, w1)"
      "choices resp = ch # chs" "finish_reason ch = ''tool_calls''"
      "handle_tool_calls env (tool_calls (message ch))
         (list_append a (AssistantMsg (content (message ch)) (tool_calls (message ch))) w1) = (Inr rs, w3)"
      "chat_loop env self a n (list_extend a rs w3) = (r, w')"
  using assms
  by (auto simp: Let_def split: prod.splits sum.splits list.splits if_splits)

subsection \<open>The loop\<close>

lemma list_update_append_twice:
  "(xs[a := xs ! a @ ys])[a := (xs[a := xs ! a @ ys]) ! a @ zs] = xs[a := xs ! a @ ys @ zs]"
  by (cases "a < length xs") (simp_all add: list_update_beyond)

lemma chat_loop_buffer:
  "chat_loop env self a n w = (r, w') \<Longrightarrow>
     \<exists>rounds. heap w' = (heap w)[a := heap w ! a @ concat (map round_msgs rounds)]
       \<and> list_all well_answered rounds"
proof (induction n arbitrary: w)
  case 0
  then have "heap w' = (heap w)[a := heap w ! a @ concat (map round_msgs [])]" by auto
  then show ?case by (intro exI [of _ "[]"]) simp
next
  case (Suc n)
  from Suc.prems show ?case
  proof (cases rule: chat_loop_Suc_cases)
    case (provider_error e)
    from chat_completion_effect(1) [OF provider_error(1)] show ?thesis
      by (intro exI [of _ "[]"]) simp
  next
    case (no_choice resp)
    from chat_completion_effect(1) [OF no_choice(1)] show ?thesis
      by (intro exI [of _ "[]"]) simp
  next
    case (answer resp ch chs)
    from chat_completion_effect(1) [OF answer(1)] show ?thesis
      by (intro exI [of _ "[]"]) simp
  next
    case (tool_error resp ch chs w1 e)
    let ?m = "AssistantMsg (content (message ch)) (tool_calls (message ch))"
    from handle_tool_calls_untouched [of "list_append a ?m w1" env "tool_calls (message ch)"] tool_error(4)
    have "heap w' = heap (list_append a ?m w1)" by (simp add: untouched_def)
    with chat_completion_effect(1) [OF tool_error(1)]
    have "heap w' = (heap w)[a := heap w ! a @ concat (map round_msgs [(content (message ch), tool_calls (message ch), [])])]"
      by (simp add: list_append_def)
    then show ?thesis
      by (intro exI [of _ "[(content (message ch), tool_calls (message ch), [])]"]) simp
  next
    case (next_round resp ch chs w1 rs w3)
    let ?m = "AssistantMsg (content (message ch)) (tool_calls (message ch))"
    let ?round = "(content (message ch), tool_calls (message ch), rs)"
    from handle_tool_calls_untouched [of "list_append a ?m w1" env "tool_calls (message ch)"] next_round(4)
    have "heap w3 = heap (list_append a ?m w1)" by (simp add: untouched_def)
    with chat_completion_effect(1) [OF next_round(1)]
    have h3: "heap w3 = (heap w)[a := heap w ! a @ [?m]]" by (simp add: list_append_def)
    have hx: "heap (list_extend a rs w3) = (heap w)[a := heap w ! a @ round_msgs ?round]"
      using list_update_append_twice [of "heap w" a "[?m]" rs] by (simp add: list_extend_def h3)
    from Suc.IH [OF next_round(5)] obtain rounds where
      r: "heap w' = (heap (list_extend a rs w3))[a := heap (list_extend a rs w3) ! a @ concat (map round_msgs rounds)]"
      and wa: "list_all well_answered rounds" by blast
    from r have "heap w' = (heap w)[a := heap w ! a @ round_msgs ?round @ concat (map round_msgs rounds)]"
      unfolding hx by (rule trans) (rule list_update_append_twice)
    moreover have "well_answered ?round"
      by (rule handle_tool_calls_well_answered [OF next_round(4)])
    ultimately show ?thesis using wa
      by (intro exI [of _ "?round # rounds"]) simp
  qed
qed

lemma chat_buffer:
  assumes "chat env self text history w = (r, w')"
  shows "\<exists>rounds. heap w' = heap w @ [[Msg ''system'' (system_prompt self)] @ heap w ! history
                                        @ [Msg ''user'' text] @ concat (map round_msgs rounds)]
           \<and> list_all well_answered rounds"
proof -
  let ?seed = "[Msg ''system'' (system_prompt self)] @ heap w ! history @ [Msg ''user'' text]"
  let ?w0 = "w\<lparr>heap := heap w @ [?seed]\<rparr>"
  from assms have "chat_loop env self (length (heap w)) 5 ?w0 = (r, w')"
    by (simp add: chat_def new_list_def deref_def)
  from chat_loop_buffer [OF this] obtain rounds where
    "heap w' = (heap ?w0)[length (heap w) := heap ?w0 ! length (heap w) @ concat (map round_msgs rounds)]"
    and wa: "list_all well_answered rounds" by blast
  then have "heap w' = heap w @ [?seed @ concat (map round_msgs rounds)]" by simp
  with wa show ?thesis by auto
qed

lemma chat_completion_requests_tools:
  assumes "always_tool_calls env" and "chat_completion env c ms ts w = (r, w1)"
  shows "requests_tools r"
proof -
  from assms(2) have "r = fst (completions_create env (client c) (model c) ms
        (case ts of None \<Rightarrow> None | Some [] \<Rightarrow> None | Some (t # ts') \<Rightarrow> ts) (ext (log (Completion ms) w)))"
    by (auto simp: chat_completion_def Let_def split: prod.splits)
  with assms(1) show ?thesis by (simp add: always_tool_calls_def)
qed

lemma chat_completion_calls:
  assumes "chat_completion env c ms ts w = (r, w1)"
  shows "completion_calls w1 = Suc (completion_calls w)"
  using chat_completion_effect(2) [OF assms] by (simp add: completion_calls_def)

lemma handle_tool_calls_completion_calls:
  assumes "handle_tool_calls env tcs (list_append a m w1) = (r, w3)"
  shows "completion_calls w3 = completion_calls w1"
  using handle_tool_calls_untouched [of "list_append a m w1" env tcs] assms
  by (simp add: untouched_def completion_calls_def list_append_def)

lemma chat_loop_always_tool_calls:
  assumes "always_tool_calls env"
  shows "chat_loop env self a n w = (r, w') \<Longrightarrow>
     (r = Inl (RuntimeError ''Tool loop exceeded max iterations'')
        \<and> after_rounds env self a n w = Some w'
        \<and> completion_calls w' = completion_calls w + n)
     \<or> (\<exists>k wk e. k < n \<and> after_rounds env self a k w = Some wk
           \<and> tool_round env self a wk = Some (Inl e, w') \<and> r = Inl e
           \<and> completion_calls w' = completion_calls w + Suc k)"
proof (induction n arbitrary: w)
  case 0
  then show ?case by auto
next
  case (Suc n)
  from Suc.prems show ?case
  proof (cases rule: chat_loop_Suc_cases)
    case (provider_error e)
    with chat_completion_requests_tools [OF assms provider_error(1)] show ?thesis
      by (simp add: requests_tools_def)
  next
    case (no_choice resp)
    with chat_completion_requests_tools [OF assms no_choice(1)] show ?thesis
      by (simp add: requests_tools_def)
  next
    case (answer resp ch chs)
    with chat_completion_requests_tools [OF assms answer(1)] show ?thesis
      by (simp add: requests_tools_def)
  next
    case (tool_error resp ch chs w1 e)
    from tool_error(1-4) have t: "tool_round env self a w = Some (Inl e, w')"
      by (simp add: tool_round_def)
    from handle_tool_calls_completion_calls [OF tool_error(4)] chat_completion_calls [OF tool_error(1)]
    have "completion_calls w' = completion_calls w + Suc 0" by simp
    with t tool_error(5) have "0 < Suc n \<and> after_rounds env self a 0 w = Some w
           \<and> tool_round env self a w = Some (Inl e, w') \<and> r = Inl e
           \<and> completion_calls w' = completion_calls w + Suc 0"
      by simp
    then show ?thesis by blast
  next
    case (next_round resp ch chs w1 rs w3)
    let ?w = "list_extend a rs w3"
    from next_round(1-4) have t: "tool_round env self a w = Some (Inr rs, w3)"
      by (simp add: tool_round_def)
    from handle_tool_calls_completion_calls [OF next_round(4)] chat_completion_calls [OF next_round(1)]
    have c: "completion_calls ?w = Suc (completion_calls w)"
      by (simp add: list_extend_def completion_calls_def)
    from Suc.IH [OF next_round(5)] show ?thesis
    proof
      assume "r = Inl (RuntimeError ''Tool loop exceeded max iterations'')
        \<and> after_rounds env self a n ?w = Some w'
        \<and> completion_calls w' = completion_calls ?w + n"
      with t c show ?thesis by simp
    next
      assume "\<exists>k wk e. k < n \<and> after_rounds env self a k ?w = Some wk
           \<and> tool_round env self a wk = Some (Inl e, w') \<and> r = Inl e
           \<and> completion_calls w' = completion_calls ?w + Suc k"
      then obtain k wk e where k: "k < n" "after_rounds env self a k ?w = Some wk"
        "tool_round env self a wk = Some (Inl e, w')" "r = Inl e"
        "completion_calls w' = completion_calls ?w + Suc k"
        by blast
      with t c have "Suc k < Suc n \<and> after_rounds env self a (Suc k) w = Some wk
           \<and> tool_round env self a wk = Some (Inl e, w') \<and> r = Inl e
           \<and> completion_calls w' = completion_calls w + Suc (Suc k)"
        by simp
      then show ?thesis by blast
    qed
  qed
qed

subsection \<open>Further facts about the loop and the registry\<close>

lemma handle_calls_unregistered:
  "list_all (\<lambda>call. \<not> registered env call) calls \<Longrightarrow>
     handle_calls env calls results w
       = (Inr results, w\<lparr>trace := trace w @ map (\<lambda>call. Lookup (name (func call))) calls\<rparr>)"
  by (induction calls arbitrary: w) (simp_all add: registered_def log_def Let_def)



lemma chat_loop_tool_round:
  assumes "chat_completion env (llm_client self) (deref w a) (Some (schemas_tools env)) w = (Inr resp, w1)"
    and "choices resp = ch # chs"
    and "finish_reason ch = ''tool_calls''"
    and "handle_tool_calls env (tool_calls (message ch))
           (list_append a (AssistantMsg (content (message ch)) (tool_calls (message ch))) w1) = (r, w3)"
  shows "chat_loop env self a (Suc n) w
           = (case r of Inl e \<Rightarrow> (Inl e, w3)
              | Inr rs \<Rightarrow> chat_loop env self a n (list_extend a rs w3))"
  using assms by (simp add: Let_def split: sum.splits)

lemma completion_calls_steps:
  "completion_calls (log (Completion ms) w) = Suc (completion_calls w)"
  "completion_calls (log (Lookup k) w) = completion_calls w"
  "completion_calls (list_append a m w) = completion_calls w"
  "completion_calls (list_extend a ms' w) = completion_calls w"
  by (simp_all add: completion_calls_def log_def list_append_def list_extend_def)

lemma chat_unfold:
  "chat env self text history w
     = chat_loop env self (length (heap w)) 5
         (w\<lparr>heap := heap w @ [[Msg ''system'' (system_prompt self)] @ heap w ! history
                               @ [Msg ''user'' text]]\<rparr>)"
  by (simp add: chat_def new_list_def deref_def)

lemma five_rounds: "(5::nat) = Suc 4"
  by simp

lemma tool_fst:
  "fst (record_user_details env email name' notes w)
     = map_sum id (\<lambda>u. recorded_ok)
         (fst (push env (''User: '' @ fmt env name' @ '' | Email: '' @ fmt env email
                         @ '' | Notes: '' @ fmt env notes) w))"
  "fst (record_unknown_question env question w)
     = map_sum id (\<lambda>u. recorded_ok) (fst (push env (''Recording '' @ fmt env question) w))"
  by (auto simp: record_user_details_def record_unknown_question_def split: prod.splits sum.splits)

lemma registered_tool_fst:
  assumes "map_of (TOOL_REGISTRY env) n = Some tool" and "accepts n kwargs"
  shows "fst (tool kwargs w)
           = (if push_returns env (notification env n kwargs) (ext w) then Inr recorded_ok
              else map_sum id (\<lambda>u. recorded_ok) (post_result env (notification env n kwargs) (ext w)))"
proof -
  from registry_cases [OF assms(1)] show ?thesis
  proof
    assume a: "n = ''record_user_details'' \<and> tool = record_user_details_kw env"
    with assms(2) have "binds [''email''] [''name'', ''notes''] kwargs" by (simp add: accepts_def)
    with a show ?thesis
      by (simp add: record_user_details_kw_def tool_fst push_fst notification_def)
  next
    assume a: "n = ''record_unknown_question'' \<and> tool = record_unknown_question_kw env"
    with assms(2) have "binds [''question''] [] kwargs" by (simp add: accepts_def)
    with a show ?thesis
      by (simp add: record_unknown_question_kw_def tool_fst push_fst notification_def)
  qed
qed

lemma unanswered_cases:
  "\<not> answered r \<Longrightarrow> \<exists>e. r = Inl e \<and> e \<noteq> RequestException"
  by (cases r) (simp_all add: answered_def)

lemma chat_loop_answer:
  assumes "chat_completion env (llm_client self) (deref w a) (Some (schemas_tools env)) w = (Inr resp, w1)"
    and "choices resp = ch # chs"
    and "finish_reason ch \<noteq> ''tool_calls''"
  shows "chat_loop env self a (Suc n) w = (Inr (content (message ch)), w1)"
  using assms by simp

subsection \<open>The example environment\<close>

lemma sample_env_fields:
  "json_loads (sample_env vars llm outcome) = sample_loads"
  "json_dumps (sample_env vars llm outcome) = sample_dumps"
  "os_getenv (sample_env vars llm outcome) = map_of vars"
  "completions_create (sample_env vars llm outcome) = (\<lambda>c m ms ts x. llm x)"
  "requests_post (sample_env vars llm outcome) = (\<lambda>url t d x. (outcome, x))"
  by (simp_all add: sample_env_def)

lemma looping_env_always: "always_tool_calls (looping_env call)"
  by (simp add: always_tool_calls_def looping_env_def sample_env_fields repeating_def
      requests_tools_def tools_response_def)

lemma looping_completion:
  "chat_completion (looping_env call) c ms ts w = (Inr (tools_response [call]), log (Completion ms) w)"
  by (simp add: chat_completion_def looping_env_def sample_env_fields repeating_def Let_def log_def)

lemma scripted_completion:
  "ext w = r # rs \<Longrightarrow>
     chat_completion (sample_env vars scripted outcome) c ms ts w
       = (Inr r, (log (Completion ms) w)\<lparr>ext := rs\<rparr>)"
  by (simp add: chat_completion_def sample_env_fields scripted_def Let_def log_def)

lemma sample_loads_question:
  "sample_loads question_args = Inr (PDict [(''question'', PStr ''Can I reach him directly?'')])"
  by (simp add: sample_loads_def)

lemma sample_loads_truncated: "sample_loads truncated_args = Inl JSONDecodeError"
  by (simp add: sample_loads_def truncated_args_def question_args_def)

lemma registry_question:
  "map_of (TOOL_REGISTRY env) ''record_unknown_question'' = Some (record_unknown_question_kw env)"
  by (simp add: TOOL_REGISTRY_def)

lemma registry_unknown: "map_of (TOOL_REGISTRY env) ''lookup_weather'' = None"
  by (simp add: TOOL_REGISTRY_def)

lemma push_unconfigured: "push (sample_env [] llm outcome) text w = (Inr (), w)"
  by (simp add: push_def falsy_def PUSHOVER_TOKEN_def sample_env_fields)

lemma question_kw_unconfigured:
  "record_unknown_question_kw (sample_env [] llm outcome) [(''question'', v)] w = (Inr recorded_ok, w)"
  by (simp add: record_unknown_question_kw_def binds_def record_unknown_question_def push_unconfigured)

lemma looping_handle_question:
  "handle_tool_calls (looping_env question_call) (Some [question_call]) w
     = (Inr [ToolMsg ''call_1'' (sample_dumps recorded_ok)], log (Lookup ''record_unknown_question'') w)"
  by (simp add: handle_tool_calls_def question_call_def registry_question sample_loads_question
      call_kwargs_def looping_env_def question_kw_unconfigured sample_env_fields)

lemma looping_handle_truncated:
  "handle_tool_calls (looping_env truncated_call) (Some [truncated_call]) w
     = (Inl JSONDecodeError, log (Lookup ''record_unknown_question'') w)"
  by (simp add: handle_tool_calls_def truncated_call_def registry_question sample_loads_truncated
      looping_env_def sample_env_fields)

lemma tools_response_sel:
  "choices (tools_response calls)
     = [\<lparr>finish_reason = ''tool_calls'', message = \<lparr>content = None, tool_calls = Some calls\<rparr>\<rparr>]"
  by (simp add: tools_response_def)

lemma looping_question_round:
  "chat_loop (looping_env question_call) self a (Suc n) w
     = chat_loop (looping_env question_call) self a n
         (list_extend a [ToolMsg ''call_1'' (sample_dumps recorded_ok)]
            (log (Lookup ''record_unknown_question'')
               (list_append a (AssistantMsg None (Some [question_call]))
                  (log (Completion (deref w a)) w))))"
proof -
  let ?ch = "\<lparr>finish_reason = ''tool_calls'',
              message = \<lparr>content = None, tool_calls = Some [question_call]\<rparr>\<rparr>"
  let ?w1 = "log (Completion (deref w a)) w"
  let ?w2 = "list_append a (AssistantMsg (content (message ?ch)) (tool_calls (message ?ch))) ?w1"
  have c: "chat_completion (looping_env question_call) (llm_client self) (deref w a)
             (Some (schemas_tools (looping_env question_call))) w
           = (Inr (tools_response [question_call]), ?w1)"
    by (rule looping_completion)
  have s: "choices (tools_response [question_call]) = ?ch # []" by (rule tools_response_sel)
  have f: "finish_reason ?ch = ''tool_calls''" by simp
  have h: "handle_tool_calls (looping_env question_call) (tool_calls (message ?ch)) ?w2
           = (Inr [ToolMsg ''call_1'' (sample_dumps recorded_ok)],
              log (Lookup ''record_unknown_question'') ?w2)"
    by (simp add: looping_handle_question)
  from chat_loop_tool_round [OF c s f h] show ?thesis by simp
qed

lemma looping_question_result:
  "fst (chat_loop (looping_env question_call) self a n w)
     = Inl (RuntimeError ''Tool loop exceeded max iterations'')
   \<and> completion_calls (snd (chat_loop (looping_env question_call) self a n w))
       = completion_calls w + n"
proof (induction n arbitrary: w)
  case 0
  show ?case by simp
next
  case (Suc n)
  show ?case unfolding looping_question_round using Suc.IH by (simp add: completion_calls_steps)
qed

lemma looping_truncated_round:
  "chat_loop (looping_env truncated_call) self a (Suc n) w
     = (Inl JSONDecodeError,
        log (Lookup ''record_unknown_question'')
          (list_append a (AssistantMsg None (Some [truncated_call])) (log (Completion (deref w a)) w)))"
proof -
  let ?ch = "\<lparr>finish_reason = ''tool_calls'',
              message = \<lparr>content = None, tool_calls = Some [truncated_call]\<rparr>\<rparr>"
  let ?w1 = "log (Completion (deref w a)) w"
  let ?w2 = "list_append a (AssistantMsg (content (message ?ch)) (tool_calls (message ?ch))) ?w1"
  have c: "chat_completion (looping_env truncated_call) (llm_client self) (deref w a)
             (Some (schemas_tools (looping_env truncated_call))) w
           = (Inr (tools_response [truncated_call]), ?w1)"
    by (rule looping_completion)
  have s: "choices (tools_response [truncated_call]) = ?ch # []" by (rule tools_response_sel)
  have f: "finish_reason ?ch = ''tool_calls''" by simp
  have h: "handle_tool_calls (looping_env truncated_call) (tool_calls (message ?ch)) ?w2
           = (Inl JSONDecodeError, log (Lookup ''record_unknown_question'') ?w2)"
    by (simp add: looping_handle_truncated)
  from chat_loop_tool_round [OF c s f h] show ?thesis by simp
qed

lemma world0_calls: "completion_calls ((world0 script)\<lparr>heap := h\<rparr>) = 0"
  by (simp add: completion_calls_def world0_def)

lemma sample_dumps_recorded_ok: "sample_dumps recorded_ok = recorded_ok_text"
  by (simp add: recorded_ok_def recorded_ok_text_def)

lemma push_configured:
  "answered outcome \<Longrightarrow>
     push (sample_env pushover llm outcome) text w
       = (Inr (), log (Post [(''token'', ''token''), (''user'', ''user''), (''message'', text)]) w)"
  by (auto simp: push_def falsy_def PUSHOVER_TOKEN_def PUSHOVER_USER_def sample_env_fields
      pushover_def Let_def answered_def log_def form_value_def split: sum.splits)

lemma question_kw_configured:
  "answered outcome \<Longrightarrow>
     record_unknown_question_kw (sample_env pushover llm outcome) [(''question'', PStr q)] w
       = (Inr recorded_ok,
          log (Post [(''token'', ''token''), (''user'', ''user''), (''message'', ''Recording '' @ q)]) w)"
  by (simp add: record_unknown_question_kw_def binds_def record_unknown_question_def
      push_configured arg_def fmt_def)

lemma question_kw_rejects_empty:
  "record_unknown_question_kw env [] w = (Inl TypeError, w)"
  by (simp add: record_unknown_question_kw_def binds_def)

lemma answered_RequestException: "answered (Inl RequestException)"
  by (simp add: answered_def)

lemma scenario_handle:
  "handle_tool_calls scenario_env (Some [question_call]) w
     = (Inr [ToolMsg ''call_1'' recorded_ok_text],
        log (Post [(''token'', ''token''), (''user'', ''user''),
                   (''message'', ''Recording Can I reach him directly?'')])
          (log (Lookup ''record_unknown_question'') w))"
  by (simp add: handle_tool_calls_def question_call_def registry_question sample_loads_question
      call_kwargs_def scenario_env_def question_kw_configured answered_RequestException
      sample_env_fields sample_dumps_recorded_ok)

lemma text_response_sel:
  "choices (text_response t)
     = [\<lparr>finish_reason = ''stop'', message = \<lparr>content = t, tool_calls = None\<rparr>\<rparr>]"
  by (simp add: text_response_def)

lemma scenario_run:
  "chat scenario_env sample_me ''Can I reach him directly?'' 0 scenario_world
     = (Inr (Some ''Sure, by email.''),
        \<lparr>ext = [],
         trace = [Completion [Msg ''system'' (system_prompt sample_me), Msg ''user'' ''Hi'',
                              Msg ''assistant'' ''Hello'', Msg ''user'' ''Can I reach him directly?''],
                  Lookup ''record_unknown_question'',
                  Post [(''token'', ''token''), (''user'', ''user''),
                        (''message'', ''Recording Can I reach him directly?'')],
                  Completion [Msg ''system'' (system_prompt sample_me), Msg ''user'' ''Hi'',
                              Msg ''assistant'' ''Hello'', Msg ''user'' ''Can I reach him directly?'',
                              AssistantMsg None (Some [question_call]),
                              ToolMsg ''call_1'' recorded_ok_text]],
         heap = [[Msg ''user'' ''Hi'', Msg ''assistant'' ''Hello''],
                 [Msg ''system'' (system_prompt sample_me), Msg ''user'' ''Hi'',
                  Msg ''assistant'' ''Hello'', Msg ''user'' ''Can I reach him directly?'',
                  AssistantMsg None (Some [question_call]),
                  ToolMsg ''call_1'' recorded_ok_text]]\<rparr>)"
proof -
  let ?seed = "[Msg ''system'' (system_prompt sample_me), Msg ''user'' ''Hi'',
                Msg ''assistant'' ''Hello'', Msg ''user'' ''Can I reach him directly?'']"
  let ?final = "text_response (Some ''Sure, by email.'')"
  let ?w0 = "\<lparr>ext = [tools_response [question_call], ?final], trace = [],
              heap = [[Msg ''user'' ''Hi'', Msg ''assistant'' ''Hello''], ?seed]\<rparr>"
  let ?ch = "\<lparr>finish_reason = ''tool_calls'',
              message = \<lparr>content = None, tool_calls = Some [question_call]\<rparr>\<rparr>"
  let ?w1 = "(log (Completion (deref ?w0 1)) ?w0)\<lparr>ext := [?final]\<rparr>"
  let ?w2 = "list_append 1 (AssistantMsg (content (message ?ch)) (tool_calls (message ?ch))) ?w1"
  let ?w3 = "log (Post [(''token'', ''token''), (''user'', ''user''),
                   (''message'', ''Recording Can I reach him directly?'')])
          (log (Lookup ''record_unknown_question'') ?w2)"
  let ?w4 = "list_extend 1 [ToolMsg ''call_1'' recorded_ok_text] ?w3"
  let ?w5 = "(log (Completion (deref ?w4 1)) ?w4)\<lparr>ext := []\<rparr>"
  let ?fin = "\<lparr>finish_reason = ''stop'', message = \<lparr>content = Some ''Sure, by email.'', tool_calls = None\<rparr>\<rparr>"
  have start: "chat scenario_env sample_me ''Can I reach him directly?'' 0 scenario_world
                 = chat_loop scenario_env sample_me 1 (Suc 4) ?w0"
    by (simp add: chat_unfold scenario_world_def world0_def)
  have c1: "chat_completion scenario_env (llm_client sample_me) (deref ?w0 1)
              (Some (schemas_tools scenario_env)) ?w0 = (Inr (tools_response [question_call]), ?w1)"
    unfolding scenario_env_def by (rule scripted_completion) simp
  have s1: "choices (tools_response [question_call]) = ?ch # []" by (rule tools_response_sel)
  have f1: "finish_reason ?ch = ''tool_calls''" by simp
  have h1: "handle_tool_calls scenario_env (tool_calls (message ?ch)) ?w2
              = (Inr [ToolMsg ''call_1'' recorded_ok_text], ?w3)"
    by (simp add: scenario_handle)
  have r1: "chat_loop scenario_env sample_me 1 (Suc 4) ?w0 = chat_loop scenario_env sample_me 1 (Suc 3) ?w4"
    using chat_loop_tool_round [OF c1 s1 f1 h1, of 4] by (simp add: eval_nat_numeral)
  have e4: "ext ?w4 = [?final]"
    by (simp add: list_extend_def log_def list_append_def)
  have c2: "chat_completion scenario_env (llm_client sample_me) (deref ?w4 1)
              (Some (schemas_tools scenario_env)) ?w4 = (Inr ?final, ?w5)"
    unfolding scenario_env_def using e4 by (rule scripted_completion)
  have s2: "choices ?final = ?fin # []" by (rule text_response_sel)
  have f2: "finish_reason ?fin \<noteq> ''tool_calls''" by simp
  have r2: "chat_loop scenario_env sample_me 1 (Suc 3) ?w4 = (Inr (content (message ?fin)), ?w5)"
    by (rule chat_loop_answer [OF c2 s2 f2])
  have "?w5 = \<lparr>ext = [],
         trace = [Completion ?seed,
                  Lookup ''record_unknown_question'',
                  Post [(''token'', ''token''), (''user'', ''user''),
                        (''message'', ''Recording Can I reach him directly?'')],
                  Completion (?seed @ [AssistantMsg None (Some [question_call]),
                              ToolMsg ''call_1'' recorded_ok_text])],
         heap = [[Msg ''user'' ''Hi'', Msg ''assistant'' ''Hello''],
                 ?seed @ [AssistantMsg None (Some [question_call]),
                  ToolMsg ''call_1'' recorded_ok_text]]\<rparr>"
    by (simp add: list_extend_def log_def list_append_def deref_def)
  with start r1 r2 show ?thesis by simp
qed







lemma world0_ext: "ext (world0 script) = script" "(world0 script)\<lparr>ext := script\<rparr> = world0 script"
  by (simp_all add: world0_def)

lemma encoding_env_fields:
  "json_loads encoding_env
     = (\<lambda>s. if s = surrogate_args then Inr (PDict [(''question'', PStr lone_surrogate)])
            else sample_loads s)"
  "json_dumps encoding_env = sample_dumps"
  "os_getenv encoding_env = map_of pushover"
  "requests_post encoding_env
     = (\<lambda>url t d x. if list_ex (\<lambda>field. has_surrogate (snd field)) d
                     then (Inl UnicodeEncodeError, x)
                     else (Inl RequestException, x))"
  by (simp_all add: encoding_env_def scenario_env_def sample_env_def)

lemma sample_unconfigured: "unconfigured (sample_env [] llm outcome)"
  by (simp add: unconfigured_def falsy_def PUSHOVER_TOKEN_def sample_env_fields)

lemma sample_configured: "\<not> unconfigured (sample_env pushover llm outcome)"
  by (simp add: unconfigured_def falsy_def PUSHOVER_TOKEN_def PUSHOVER_USER_def sample_env_fields
      pushover_def)

lemma encoding_configured: "\<not> unconfigured encoding_env"
  by (simp add: unconfigured_def falsy_def PUSHOVER_TOKEN_def PUSHOVER_USER_def encoding_env_fields
      pushover_def)

lemma sample_post_result: "post_result (sample_env vars llm outcome) text x = outcome"
  by (simp add: post_result_def sample_env_fields)

lemma encoding_form:
  "pushover_form encoding_env text = [(''token'', ''token''), (''user'', ''user''), (''message'', text)]"
  by (simp add: pushover_form_def form_value_def PUSHOVER_TOKEN_def PUSHOVER_USER_def
      encoding_env_fields pushover_def)

lemma encoding_post_result:
  "post_result encoding_env text x
     = (if has_surrogate text then Inl UnicodeEncodeError else Inl RequestException)"
  by (simp add: post_result_def encoding_form encoding_env_fields)

lemma question_notification:
  "notification env ''record_unknown_question'' [(''question'', PStr q)] = ''Recording '' @ q"
  by (simp add: notification_def arg_def fmt_def)

lemma question_accepted: "accepts ''record_unknown_question'' [(''question'', v)]"
  by (simp add: accepts_def binds_def)

lemma surrogate_loads:
  "json_loads encoding_env (arguments (func surrogate_call))
     = Inr (PDict [(''question'', PStr lone_surrogate)])"
  by (simp add: encoding_env_fields surrogate_call_def)

section \<open>The properties\<close>

text \<open>
  C1, as stated: for every model that answers each completion request with finish reason
  \<^verbatim>\<open>tool_calls\<close>, \<^verbatim>\<open>chat\<close> performs at most 5 completion requests and then fails with the
  loop error (\<^verbatim>\<open>RuntimeError("Tool loop exceeded max iterations")\<close>). This fails: a
  model that keeps requesting \<^verbatim>\<open>record_unknown_question\<close> with arguments that are not
  JSON makes \<^verbatim>\<open>chat\<close> fail in the first round with the decoder's exception.
\<close>

theorem chat_tool_loop_counterexample:
  "always_tool_calls (looping_env truncated_call)
   \<and> fst (chat (looping_env truncated_call) sample_me ''Hi'' 0 (world0 [])) = Inl JSONDecodeError
   \<and> completion_calls (snd (chat (looping_env truncated_call) sample_me ''Hi'' 0 (world0 []))) = 1"
  unfolding chat_unfold five_rounds looping_truncated_round
  by (simp add: looping_env_always completion_calls_steps world0_calls)

text \<open>
  C1, amended: for every such model, \<^verbatim>\<open>chat\<close> performs at most 5 completion requests and
  never returns an answer. Either the tool calls of all 5 rounds are handled, and
  \<^verbatim>\<open>chat\<close> fails with the loop error after exactly 5 completion requests; or the tool
  calls of the first \<open>k < 5\<close> rounds are handled and handling those of round \<open>k + 1\<close>
  raises: then that exception is the outcome of the turn, after \<open>k + 1\<close> completion
  requests, in the world in which the handling raised.
\<close>

theorem chat_bounded_when_tools_always_requested:
  assumes "always_tool_calls env" and "chat env self text history w = (r, w')"
  shows "completion_calls w' \<le> completion_calls w + 5
       \<and> (\<exists>e. r = Inl e)
       \<and> (r = Inl (RuntimeError ''Tool loop exceeded max iterations'')
            \<and> after_rounds env self (length (heap w)) 5
                 (snd (new_list ([Msg ''system'' (system_prompt self)] @ deref w history
                                  @ [Msg ''user'' text]) w)) = Some w'
            \<and> completion_calls w' = completion_calls w + 5
          \<or> (\<exists>k wk e. k < 5
                \<and> after_rounds env self (length (heap w)) k
                     (snd (new_list ([Msg ''system'' (system_prompt self)] @ deref w history
                                      @ [Msg ''user'' text]) w)) = Some wk
                \<and> tool_round env self (length (heap w)) wk = Some (Inl e, w')
                \<and> r = Inl e
                \<and> completion_calls w' = completion_calls w + Suc k))"
proof -
  let ?w0 = "snd (new_list ([Msg ''system'' (system_prompt self)] @ deref w history
                             @ [Msg ''user'' text]) w)"
  from assms(2) have "chat_loop env self (length (heap w)) 5 ?w0 = (r, w')"
    by (simp add: chat_def new_list_def)
  note run = chat_loop_always_tool_calls [OF assms(1) this]
  have c: "completion_calls ?w0 = completion_calls w"
    by (simp add: completion_calls_def new_list_def)
  from run show ?thesis unfolding c by auto
qed

theorem chat_bounded_when_tools_always_requested_witness:
  "always_tool_calls (looping_env question_call)
   \<and> fst (chat (looping_env question_call) sample_me ''Hi'' 0 (world0 []))
       = Inl (RuntimeError ''Tool loop exceeded max iterations'')
   \<and> completion_calls (snd (chat (looping_env question_call) sample_me ''Hi'' 0 (world0 []))) = 5"
proof -
  let ?c = "chat (looping_env question_call) sample_me ''Hi'' 0 (world0 [])"
  have a: "always_tool_calls (looping_env question_call)" by (rule looping_env_always)
  have b: "?c = (fst ?c, snd ?c)" by simp
  have d: "fst ?c = Inl (RuntimeError ''Tool loop exceeded max iterations'')"
    unfolding chat_unfold by (simp add: looping_question_result)
  have e: "completion_calls (snd ?c) = 5"
    unfolding chat_unfold by (simp add: looping_question_result world0_calls)
  from chat_bounded_when_tools_always_requested [OF a b] a d e show ?thesis by simp
qed

text \<open>
  C2, as stated: for every tool-call request whose name is registered and whose
  arguments decode to valid keyword arguments, handling the call appends exactly one
  tool-result message. This fails: the tool is invoked unguarded, and a question that
  holds a lone surrogate, decoded and accepted, makes the notification's POST raise
  \<^verbatim>\<open>UnicodeEncodeError\<close>, which \<^verbatim>\<open>push\<close> does not catch; \<^verbatim>\<open>_handle_tool_calls\<close>
  raises and no message results.
\<close>

theorem tool_call_round_trip_counterexample:
  "map_of (TOOL_REGISTRY encoding_env) (name (func surrogate_call))
     = Some (record_unknown_question_kw encoding_env)
   \<and> json_loads encoding_env (arguments (func surrogate_call))
       = Inr (PDict [(''question'', PStr lone_surrogate)])
   \<and> accepts (name (func surrogate_call)) [(''question'', PStr lone_surrogate)]
   \<and> fst (handle_tool_calls encoding_env (Some [surrogate_call]) scenario_world)
       = Inl UnicodeEncodeError"
proof -
  let ?w1 = "log (Lookup ''record_unknown_question'') scenario_world"
  have n: "name (func surrogate_call) = ''record_unknown_question''"
    by (simp add: surrogate_call_def)
  have "fst (record_unknown_question_kw encoding_env [(''question'', PStr lone_surrogate)] ?w1)
          = Inl UnicodeEncodeError"
    using registered_tool_fst [OF registry_question [of encoding_env]
        question_accepted [of "PStr lone_surrogate"], of ?w1]
    by (simp add: question_notification push_returns_def encoding_configured encoding_post_result
        lone_surrogate_def answered_def)
  then obtain w2 where
    "record_unknown_question_kw encoding_env [(''question'', PStr lone_surrogate)] ?w1
       = (Inl UnicodeEncodeError, w2)"
    by (cases "record_unknown_question_kw encoding_env [(''question'', PStr lone_surrogate)] ?w1")
       simp
  then have "fst (handle_tool_calls encoding_env (Some [surrogate_call]) scenario_world)
       = Inl UnicodeEncodeError"
    by (simp add: handle_tool_calls_def n registry_question surrogate_loads call_kwargs_def)
  then show ?thesis by (simp add: n registry_question surrogate_loads question_accepted)
qed

text \<open>
  C2, amended: a tool-call request whose name is registered, whose arguments decode to
  keyword arguments that the tool accepts, and whose invocation returns (the
  notification it pushes is skipped for missing configuration, is delivered, or fails
  in transport) contributes exactly one message to the results of
  \<^verbatim>\<open>_handle_tool_calls\<close>, after the results of the calls before it: a message with role
  \<^verbatim>\<open>tool\<close>, whose \<^verbatim>\<open>tool_call_id\<close> is the identifier of the request and whose content
  is \<^verbatim>\<open>json.dumps\<close> of what the registered tool returned for the decoded arguments,
  \<^verbatim>\<open>{"recorded": "ok"}\<close>. The handling goes on, in the world the invocation left, with
  the calls after it, which add the results of the registered ones.
\<close>

theorem tool_call_round_trip:
  assumes "handle_calls env pre [] w = (Inr rs, w1)"
    and "map_of (TOOL_REGISTRY env) (name (func call)) = Some tool"
    and "json_loads env (arguments (func call)) = Inr (PDict kwargs)"
    and "accepts (name (func call)) kwargs"
    and "push_returns env (notification env (name (func call)) kwargs) (ext w1)"
  shows "fst (tool kwargs (log (Lookup (name (func call))) w1))
           = Inr (PDict [(''recorded'', PStr ''ok'')])
       \<and> handle_tool_calls env (Some (pre @ call # post)) w
           = handle_calls env post
               (rs @ [ToolMsg (call_id call) (json_dumps env (PDict [(''recorded'', PStr ''ok'')]))])
               (snd (tool kwargs (log (Lookup (name (func call))) w1)))
       \<and> role (ToolMsg (call_id call) (json_dumps env (PDict [(''recorded'', PStr ''ok'')]))) = ''tool''
       \<and> tool_call_id (ToolMsg (call_id call) (json_dumps env (PDict [(''recorded'', PStr ''ok'')])))
           = Some (call_id call)
       \<and> (\<forall>final w'. handle_tool_calls env (Some (pre @ call # post)) w = (Inr final, w') \<longrightarrow>
             (\<exists>more. final = rs @ ToolMsg (call_id call)
                                    (json_dumps env (PDict [(''recorded'', PStr ''ok'')])) # more
                \<and> map tool_call_id more
                    = map (\<lambda>c. Some (call_id c)) (filter (registered env) post)))"
proof -
  let ?w = "log (Lookup (name (func call))) w1"
  let ?m = "ToolMsg (call_id call) (json_dumps env (PDict [(''recorded'', PStr ''ok'')]))"
  have "ext ?w = ext w1" by (simp add: log_def)
  with registered_tool_fst [OF assms(2,4), of ?w] assms(5)
  have out: "fst (tool kwargs ?w) = Inr (PDict [(''recorded'', PStr ''ok'')])"
    by (simp add: recorded_ok_def)
  then obtain w2 where inv: "tool kwargs ?w = (Inr (PDict [(''recorded'', PStr ''ok'')]), w2)"
    by (cases "tool kwargs ?w") simp
  then have w2: "snd (tool kwargs ?w) = w2" by simp
  have "handle_calls env (call # post) rs w1 = handle_calls env post (rs @ [?m]) w2"
    using assms(2,3) inv by (simp add: Let_def call_kwargs_def)
  then have "handle_calls env (call # post) rs w1
               = handle_calls env post (rs @ [?m]) (snd (tool kwargs ?w))"
    by (simp only: w2)
  with assms(1) have step: "handle_tool_calls env (Some (pre @ call # post)) w
           = handle_calls env post (rs @ [?m]) (snd (tool kwargs ?w))"
    by (simp add: handle_tool_calls_def handle_calls_append)
  have "\<exists>more. final = rs @ ?m # more
          \<and> map tool_call_id more = map (\<lambda>c. Some (call_id c)) (filter (registered env) post)"
    if "handle_tool_calls env (Some (pre @ call # post)) w = (Inr final, w')" for final w'
  proof -
    from that step
    have "handle_calls env post (rs @ [?m]) (snd (tool kwargs ?w)) = (Inr final, w')" by simp
    from handle_calls_results [OF this] show ?thesis by auto
  qed
  with out step show ?thesis by simp
qed

theorem tool_call_round_trip_witness:
  "handle_calls scenario_env [unknown_call] [] scenario_world
     = (Inr [], log (Lookup ''lookup_weather'') scenario_world)
   \<and> map_of (TOOL_REGISTRY scenario_env) (name (func question_call))
       = Some (record_unknown_question_kw scenario_env)
   \<and> json_loads scenario_env (arguments (func question_call))
       = Inr (PDict [(''question'', PStr ''Can I reach him directly?'')])
   \<and> accepts (name (func question_call)) [(''question'', PStr ''Can I reach him directly?'')]
   \<and> post_result scenario_env ''Recording Can I reach him directly?''
        (ext (log (Lookup ''lookup_weather'') scenario_world)) = Inl RequestException
   \<and> handle_tool_calls scenario_env (Some [unknown_call, question_call]) scenario_world
       = (Inr [ToolMsg ''call_1'' recorded_ok_text],
          log (Post [(''token'', ''token''), (''user'', ''user''),
                     (''message'', ''Recording Can I reach him directly?'')])
            (log (Lookup ''record_unknown_question'')
               (log (Lookup ''lookup_weather'') scenario_world)))"
proof -
  let ?w1 = "log (Lookup ''lookup_weather'') scenario_world"
  let ?kwargs = "[(''question'', PStr ''Can I reach him directly?'')]"
  have n: "name (func question_call) = ''record_unknown_question''" by (simp add: question_call_def)
  have h1: "handle_calls scenario_env [unknown_call] [] scenario_world = (Inr [], ?w1)"
    by (simp add: unknown_call_def registry_unknown)
  have h2: "map_of (TOOL_REGISTRY scenario_env) (name (func question_call))
              = Some (record_unknown_question_kw scenario_env)"
    by (simp add: n registry_question)
  have h3: "json_loads scenario_env (arguments (func question_call)) = Inr (PDict ?kwargs)"
    by (simp add: question_call_def scenario_env_def sample_env_fields sample_loads_question)
  have h4: "accepts (name (func question_call)) ?kwargs" by (simp add: n question_accepted)
  have p: "post_result scenario_env ''Recording Can I reach him directly?'' (ext ?w1)
             = Inl RequestException"
    unfolding scenario_env_def by (rule sample_post_result)
  then have h5: "push_returns scenario_env
                   (notification scenario_env (name (func question_call)) ?kwargs) (ext ?w1)"
    by (simp add: n push_returns_def question_notification answered_def)
  have inv: "record_unknown_question_kw scenario_env ?kwargs (log (Lookup (name (func question_call))) ?w1)
          = (Inr recorded_ok,
             log (Post [(''token'', ''token''), (''user'', ''user''),
                        (''message'', ''Recording Can I reach him directly?'')])
               (log (Lookup ''record_unknown_question'') ?w1))"
    by (simp add: n scenario_env_def question_kw_configured answered_RequestException)
  from tool_call_round_trip [OF h1 h2 h3 h4 h5, where post = "[]"]
  have "handle_tool_calls scenario_env (Some ([unknown_call] @ question_call # [])) scenario_world
          = handle_calls scenario_env []
              ([] @ [ToolMsg (call_id question_call)
                       (json_dumps scenario_env (PDict [(''recorded'', PStr ''ok'')]))])
              (snd (record_unknown_question_kw scenario_env ?kwargs
                      (log (Lookup (name (func question_call))) ?w1)))"
    by blast
  moreover have "snd (record_unknown_question_kw scenario_env ?kwargs
                        (log (Lookup (name (func question_call))) ?w1))
          = log (Post [(''token'', ''token''), (''user'', ''user''),
                       (''message'', ''Recording Can I reach him directly?'')])
              (log (Lookup ''record_unknown_question'') ?w1)"
    by (simp add: inv)
  moreover have "json_dumps scenario_env (PDict [(''recorded'', PStr ''ok'')]) = recorded_ok_text"
    using sample_dumps_recorded_ok by (simp add: scenario_env_def sample_env_fields recorded_ok_def)
  moreover have "call_id question_call = ''call_1''" by (simp add: question_call_def)
  ultimately have "handle_tool_calls scenario_env (Some [unknown_call, question_call]) scenario_world
       = (Inr [ToolMsg ''call_1'' recorded_ok_text],
          log (Post [(''token'', ''token''), (''user'', ''user''),
                     (''message'', ''Recording Can I reach him directly?'')])
            (log (Lookup ''record_unknown_question'') ?w1))"
    by simp
  with h1 h2 h3 h4 p show ?thesis by simp
qed

text \<open>
  C3. A tool-call request whose name is not in the registry adds no result message and
  raises nothing: the calls before it and after it are handled as they would be, the
  only effect of the request being the lookup. When no request of a response names a
  registered tool, the loop goes on to the next round with the buffer extended by the
  assistant message alone.
\<close>

theorem unknown_tool_is_skipped:
  "(map_of (TOOL_REGISTRY env) (name (func call)) = None \<longrightarrow>
      handle_calls env (pre @ call # post) results w
        = (case handle_calls env pre results w of
             (Inl e, w1) \<Rightarrow> (Inl e, w1)
           | (Inr rs, w1) \<Rightarrow> handle_calls env post rs (log (Lookup (name (func call))) w1)))
   \<and> (chat_completion env (llm_client self) (deref w a) (Some (schemas_tools env)) w = (Inr resp, w1)
        \<and> choices resp = ch # chs \<and> finish_reason ch = ''tool_calls''
        \<and> tool_calls (message ch) = Some calls
        \<and> list_all (\<lambda>call. map_of (TOOL_REGISTRY env) (name (func call)) = None) calls \<longrightarrow>
      chat_loop env self a (Suc n) w
        = chat_loop env self a n
            (w1\<lparr>heap := (heap w1)[a := heap w1 ! a @ [AssistantMsg (content (message ch)) (Some calls)]],
                trace := trace w1 @ map (\<lambda>call. Lookup (name (func call))) calls\<rparr>))"
proof (intro conjI impI)
  assume "map_of (TOOL_REGISTRY env) (name (func call)) = None"
  then show "handle_calls env (pre @ call # post) results w
        = (case handle_calls env pre results w of
             (Inl e, w1) \<Rightarrow> (Inl e, w1)
           | (Inr rs, w1) \<Rightarrow> handle_calls env post rs (log (Lookup (name (func call))) w1))"
    by (simp add: handle_calls_append Let_def split: prod.splits sum.splits)
next
  assume a: "chat_completion env (llm_client self) (deref w a) (Some (schemas_tools env)) w = (Inr resp, w1)
        \<and> choices resp = ch # chs \<and> finish_reason ch = ''tool_calls''
        \<and> tool_calls (message ch) = Some calls
        \<and> list_all (\<lambda>call. map_of (TOOL_REGISTRY env) (name (func call)) = None) calls"
  let ?w2 = "list_append a (AssistantMsg (content (message ch)) (Some calls)) w1"
  from a have "list_all (\<lambda>call. \<not> registered env call) calls" by (simp add: registered_def)
  from handle_calls_unregistered [OF this, of "[]" ?w2]
  have "handle_tool_calls env (Some calls) ?w2
          = (Inr [], ?w2\<lparr>trace := trace ?w2 @ map (\<lambda>call. Lookup (name (func call))) calls\<rparr>)"
    by (simp add: handle_tool_calls_def)
  with a show "chat_loop env self a (Suc n) w
        = chat_loop env self a n
            (w1\<lparr>heap := (heap w1)[a := heap w1 ! a @ [AssistantMsg (content (message ch)) (Some calls)]],
                trace := trace w1 @ map (\<lambda>call. Lookup (name (func call))) calls\<rparr>)"
    by (simp add: Let_def list_append_def list_extend_def)
qed

theorem unknown_tool_is_skipped_witness:
  "map_of (TOOL_REGISTRY scenario_env) (name (func unknown_call)) = None
   \<and> handle_calls scenario_env [unknown_call, question_call] [] scenario_world
       = handle_calls scenario_env [question_call] [] (log (Lookup ''lookup_weather'') scenario_world)
   \<and> chat_completion scenario_env (llm_client sample_me) (deref (world0 [tools_response [unknown_call]]) 0)
        (Some (schemas_tools scenario_env)) (world0 [tools_response [unknown_call]])
       = (Inr (tools_response [unknown_call]),
          \<lparr>ext = [], trace = [Completion [Msg ''user'' ''Hi'', Msg ''assistant'' ''Hello'']],
           heap = [[Msg ''user'' ''Hi'', Msg ''assistant'' ''Hello'']]\<rparr>)
   \<and> chat_loop scenario_env sample_me 0 (Suc 4) (world0 [tools_response [unknown_call]])
       = chat_loop scenario_env sample_me 0 4
           \<lparr>ext = [],
            trace = [Completion [Msg ''user'' ''Hi'', Msg ''assistant'' ''Hello''],
                     Lookup ''lookup_weather''],
            heap = [[Msg ''user'' ''Hi'', Msg ''assistant'' ''Hello'',
                     AssistantMsg None (Some [unknown_call])]]\<rparr>"
proof -
  let ?w = "world0 [tools_response [unknown_call]]"
  let ?w1 = "\<lparr>ext = [], trace = [Completion [Msg ''user'' ''Hi'', Msg ''assistant'' ''Hello'']],
              heap = [[Msg ''user'' ''Hi'', Msg ''assistant'' ''Hello'']]\<rparr> :: response list world"
  let ?ch = "\<lparr>finish_reason = ''tool_calls'',
              message = \<lparr>content = None, tool_calls = Some [unknown_call]\<rparr>\<rparr>"
  have u: "map_of (TOOL_REGISTRY scenario_env) (name (func unknown_call)) = None"
    by (simp add: unknown_call_def registry_unknown)
  have "chat_completion scenario_env (llm_client sample_me) (deref ?w 0)
          (Some (schemas_tools scenario_env)) ?w
        = (Inr (tools_response [unknown_call]), (log (Completion (deref ?w 0)) ?w)\<lparr>ext := []\<rparr>)"
    unfolding scenario_env_def by (rule scripted_completion) (simp add: world0_def)
  then have c: "chat_completion scenario_env (llm_client sample_me) (deref ?w 0)
          (Some (schemas_tools scenario_env)) ?w = (Inr (tools_response [unknown_call]), ?w1)"
    by (simp add: world0_def log_def deref_def)
  have s: "choices (tools_response [unknown_call]) = ?ch # []" by (rule tools_response_sel)
  have rest: "finish_reason ?ch = ''tool_calls''" "tool_calls (message ?ch) = Some [unknown_call]"
    "list_all (\<lambda>call. map_of (TOOL_REGISTRY scenario_env) (name (func call)) = None) [unknown_call]"
    using u by simp_all
  note t = unknown_tool_is_skipped [where env = scenario_env and call = unknown_call
      and pre = "[]" and post = "[question_call]" and results = "[]" and w = ?w and self = sample_me
      and a = 0 and resp = "tools_response [unknown_call]" and ?w1.0 = ?w1 and ch = ?ch
      and chs = "[]" and calls = "[unknown_call]" and n = 4]
  from t u have "handle_calls scenario_env ([] @ unknown_call # [question_call]) [] ?w
       = (case handle_calls scenario_env [] [] ?w of
             (Inl e, w1) \<Rightarrow> (Inl e, w1)
           | (Inr rs, w1) \<Rightarrow> handle_calls scenario_env [question_call] rs
                                (log (Lookup (name (func unknown_call))) w1))"
    by blast
  then have a: "handle_calls scenario_env [unknown_call, question_call] [] ?w
       = handle_calls scenario_env [question_call] [] (log (Lookup ''lookup_weather'') ?w)"
    by (simp add: unknown_call_def)
  from t c s rest have "chat_loop scenario_env sample_me 0 (Suc 4) ?w
        = chat_loop scenario_env sample_me 0 4
            (?w1\<lparr>heap := (heap ?w1)[0 := heap ?w1 ! 0 @ [AssistantMsg (content (message ?ch)) (Some [unknown_call])]],
                trace := trace ?w1 @ map (\<lambda>call. Lookup (name (func call))) [unknown_call]\<rparr>)"
    by blast
  then have b: "chat_loop scenario_env sample_me 0 (Suc 4) ?w
       = chat_loop scenario_env sample_me 0 4
           \<lparr>ext = [],
            trace = [Completion [Msg ''user'' ''Hi'', Msg ''assistant'' ''Hello''],
                     Lookup ''lookup_weather''],
            heap = [[Msg ''user'' ''Hi'', Msg ''assistant'' ''Hello'',
                     AssistantMsg None (Some [unknown_call])]]\<rparr>"
    by (simp add: unknown_call_def)
  have a': "handle_calls scenario_env [unknown_call, question_call] [] scenario_world
       = handle_calls scenario_env [question_call] [] (log (Lookup ''lookup_weather'') scenario_world)"
    using unknown_tool_is_skipped [where env = scenario_env and call = unknown_call
      and pre = "[]" and post = "[question_call]" and results = "[]" and w = scenario_world] u
    by (simp add: unknown_call_def)
  from u a' c b show ?thesis by simp
qed

text \<open>
  C4. In any round of the loop of \<^verbatim>\<open>chat\<close> (\<open>chat_loop\<close> with the rounds still to run),
  a response whose finish reason is not \<^verbatim>\<open>tool_calls\<close> ends the turn: \<^verbatim>\<open>chat\<close> returns
  the content of the response's message as it is, also when it is \<^verbatim>\<open>None\<close> or empty.
  The round consists of the completion request alone: no registry lookup, no POST, and
  no change to any list.
\<close>

theorem final_answer_returned_unchanged:
  assumes "chat_completion env (llm_client self) (deref w a) (Some (schemas_tools env)) w = (Inr resp, w1)"
    and "choices resp = ch # chs"
    and "finish_reason ch \<noteq> ''tool_calls''"
  shows "chat_loop env self a (Suc n) w = (Inr (content (message ch)), w1)
       \<and> trace w1 = trace w @ [Completion (deref w a)]
       \<and> heap w1 = heap w"
  using assms chat_completion_effect [OF assms(1)] by simp

theorem final_answer_returned_unchanged_witness:
  "chat_loop scenario_env sample_me 0 (Suc 4) (world0 [text_response None])
     = (Inr None,
        \<lparr>ext = [], trace = [Completion [Msg ''user'' ''Hi'', Msg ''assistant'' ''Hello'']],
         heap = [[Msg ''user'' ''Hi'', Msg ''assistant'' ''Hello'']]\<rparr>)
   \<and> fst (chat_loop scenario_env sample_me 0 (Suc 4) (world0 [text_response (Some [])])) = Inr (Some [])
   \<and> fst (chat scenario_env sample_me ''Can I reach him directly?'' 0 scenario_world)
       = Inr (Some ''Sure, by email.'')"
proof -
  have one: "chat_loop scenario_env sample_me 0 (Suc 4) (world0 [text_response t])
       = (Inr t,
          \<lparr>ext = [], trace = [Completion [Msg ''user'' ''Hi'', Msg ''assistant'' ''Hello'']],
           heap = [[Msg ''user'' ''Hi'', Msg ''assistant'' ''Hello'']]\<rparr>)" for t
  proof -
    let ?w = "world0 [text_response t]"
    let ?ch = "\<lparr>finish_reason = ''stop'', message = \<lparr>content = t, tool_calls = None\<rparr>\<rparr>"
    have c: "chat_completion scenario_env (llm_client sample_me) (deref ?w 0)
               (Some (schemas_tools scenario_env)) ?w
             = (Inr (text_response t), (log (Completion (deref ?w 0)) ?w)\<lparr>ext := []\<rparr>)"
      unfolding scenario_env_def by (rule scripted_completion) (simp add: world0_def)
    have s: "choices (text_response t) = ?ch # []" by (rule text_response_sel)
    have f: "finish_reason ?ch \<noteq> ''tool_calls''" by simp
    from final_answer_returned_unchanged [OF c s f, of 4]
    have "chat_loop scenario_env sample_me 0 (Suc 4) ?w
            = (Inr (content (message ?ch)), (log (Completion (deref ?w 0)) ?w)\<lparr>ext := []\<rparr>)"
      by (rule conjunct1)
    then show ?thesis by (simp add: world0_def log_def deref_def)
  qed
  from one [of None] one [of "Some []"] scenario_run show ?thesis by simp
qed

text \<open>
  C5. Whatever the outcome of \<^verbatim>\<open>chat\<close>, the conversation buffer (the list object that
  \<^verbatim>\<open>chat\<close> creates) holds the system message, the caller's history and the new user
  message, in this order, followed by the rounds that were run: for each round the
  assistant message with its tool-call requests, then the tool results of that round,
  whose identifiers are identifiers of those requests in the order of the requests.
\<close>

theorem chat_buffer_seeded_and_answered:
  assumes "chat env self text history w = (r, w')"
  shows "\<exists>rounds. heap w' ! length (heap w)
             = [Msg ''system'' (system_prompt self)] @ heap w ! history @ [Msg ''user'' text]
               @ concat (map round_msgs rounds)
           \<and> list_all well_answered rounds"
proof -
  from chat_buffer [OF assms] obtain rounds where
    "heap w' = heap w @ [[Msg ''system'' (system_prompt self)] @ heap w ! history
                          @ [Msg ''user'' text] @ concat (map round_msgs rounds)]"
    and "list_all well_answered rounds" by blast
  then show ?thesis by (intro exI [of _ rounds]) simp
qed

theorem chat_buffer_seeded_and_answered_witness:
  "heap (snd (chat scenario_env sample_me ''Can I reach him directly?'' 0 scenario_world)) ! 1
     = [Msg ''system'' (system_prompt sample_me), Msg ''user'' ''Hi'', Msg ''assistant'' ''Hello'',
        Msg ''user'' ''Can I reach him directly?'',
        AssistantMsg None (Some [question_call]), ToolMsg ''call_1'' recorded_ok_text]
   \<and> (\<exists>rounds.
         heap (snd (chat scenario_env sample_me ''Can I reach him directly?'' 0 scenario_world))
           ! length (heap scenario_world)
           = [Msg ''system'' (system_prompt sample_me)] @ heap scenario_world ! 0
             @ [Msg ''user'' ''Can I reach him directly?''] @ concat (map round_msgs rounds)
         \<and> list_all well_answered rounds)"
proof -
  let ?c = "chat scenario_env sample_me ''Can I reach him directly?'' 0 scenario_world"
  have "?c = (fst ?c, snd ?c)" by simp
  from chat_buffer_seeded_and_answered [OF this] scenario_run show ?thesis by simp
qed




text \<open>
  C7. For every message, \<^verbatim>\<open>push\<close> with no destination configured (the token or the
  user missing or empty) returns without raising and without attempting a POST: the
  world is left as it was. When the destination is configured and the POST fails in
  transport (\<^verbatim>\<open>requests.RequestException\<close>), the exception is swallowed: \<^verbatim>\<open>push\<close>
  returns without raising, the only effect being the one attempted POST.
\<close>

theorem push_fire_and_forget:
  "(falsy (PUSHOVER_TOKEN env) \<or> falsy (PUSHOVER_USER env) \<longrightarrow> push env text w = (Inr (), w))
   \<and> (PUSHOVER_TOKEN env = Some tk \<and> tk \<noteq> [] \<and> PUSHOVER_USER env = Some us \<and> us \<noteq> []
        \<and> requests_post env ''https://api.pushover.net/1/messages.json'' 5
             [(''token'', tk), (''user'', us), (''message'', text)] (ext w) = (Inl RequestException, x)
      \<longrightarrow> push env text w
            = (Inr (), w\<lparr>ext := x,
                         trace := trace w @ [Post [(''token'', tk), (''user'', us), (''message'', text)]]\<rparr>))"
  by (auto simp: push_def Let_def falsy_def log_def form_value_def)

theorem push_fire_and_forget_witness:
  "falsy (PUSHOVER_TOKEN (sample_env [] scripted (Inr ())))
   \<and> push (sample_env [] scripted (Inr ())) ''Recording x'' (world0 []) = (Inr (), world0 [])
   \<and> PUSHOVER_TOKEN (sample_env pushover scripted (Inl RequestException)) = Some ''token''
   \<and> PUSHOVER_USER (sample_env pushover scripted (Inl RequestException)) = Some ''user''
   \<and> requests_post (sample_env pushover scripted (Inl RequestException))
        ''https://api.pushover.net/1/messages.json'' 5
        [(''token'', ''token''), (''user'', ''user''), (''message'', ''Recording x'')] (ext (world0 []))
      = (Inl RequestException, [])
   \<and> push (sample_env pushover scripted (Inl RequestException)) ''Recording x'' (world0 [])
      = (Inr (), (world0 [])\<lparr>ext := [],
           trace := [Post [(''token'', ''token''), (''user'', ''user''), (''message'', ''Recording x'')]]\<rparr>)"
proof -
  let ?e1 = "sample_env [] scripted (Inr ())"
  let ?e2 = "sample_env pushover scripted (Inl RequestException)"
  have a: "falsy (PUSHOVER_TOKEN ?e1)"
    by (simp add: falsy_def PUSHOVER_TOKEN_def sample_env_def)
  have b: "PUSHOVER_TOKEN ?e2 = Some ''token''" "PUSHOVER_USER ?e2 = Some ''user''"
    by (simp_all add: PUSHOVER_TOKEN_def PUSHOVER_USER_def sample_env_def pushover_def)
  have c: "requests_post ?e2 ''https://api.pushover.net/1/messages.json'' 5
        [(''token'', ''token''), (''user'', ''user''), (''message'', ''Recording x'')] (ext (world0 []))
      = (Inl RequestException, [])"
    by (simp add: sample_env_def world0_def)
  from a push_fire_and_forget [of ?e1 "''Recording x''" "world0 []"]
  have d: "push ?e1 ''Recording x'' (world0 []) = (Inr (), world0 [])" by blast
  from b c push_fire_and_forget [of ?e2 "''Recording x''" "world0 []" "''token''" "''user''" "[]"]
  have e: "push ?e2 ''Recording x'' (world0 [])
      = (Inr (), (world0 [])\<lparr>ext := [],
           trace := trace (world0 []) @ [Post [(''token'', ''token''), (''user'', ''user''), (''message'', ''Recording x'')]]\<rparr>)"
    by simp
  have f: "trace (world0 []) = []" by (simp add: world0_def)
  from a b c d e f show ?thesis by simp
qed

text \<open>
  C8, as stated: each tool of the registry, for every valid argument assignment, returns
  \<^verbatim>\<open>{"recorded": "ok"}\<close> and never raises. This fails: \<^verbatim>\<open>push\<close> catches
  \<^verbatim>\<open>requests.RequestException\<close> only, and for a question that holds a lone surrogate
  the POST raises \<^verbatim>\<open>UnicodeEncodeError\<close> while it encodes the message; the exception
  leaves \<^verbatim>\<open>push\<close> and the tool.
\<close>

theorem registered_tools_counterexample:
  "map_of (TOOL_REGISTRY encoding_env) ''record_unknown_question''
     = Some (record_unknown_question_kw encoding_env)
   \<and> accepts ''record_unknown_question'' [(''question'', PStr lone_surrogate)]
   \<and> fst (record_unknown_question_kw encoding_env [(''question'', PStr lone_surrogate)] scenario_world)
       = Inl UnicodeEncodeError"
proof -
  have "fst (record_unknown_question_kw encoding_env [(''question'', PStr lone_surrogate)] scenario_world)
          = Inl UnicodeEncodeError"
    using registered_tool_fst [OF registry_question question_accepted,
        of encoding_env "PStr lone_surrogate" scenario_world]
    by (simp add: question_notification push_returns_def encoding_configured encoding_post_result
        lone_surrogate_def answered_def)
  then show ?thesis by (simp add: registry_question question_accepted)
qed

text \<open>
  C8, amended: each tool of the registry (\<^verbatim>\<open>record_user_details\<close>,
  \<^verbatim>\<open>record_unknown_question\<close>), called with keyword arguments that its parameter list
  accepts, returns \<^verbatim>\<open>{"recorded": "ok"}\<close> and raises nothing whenever the one
  notification it pushes is skipped for missing configuration, is delivered, or fails
  in transport with \<^verbatim>\<open>requests.RequestException\<close>. When the destination is configured
  and the POST raises any other exception, that exception leaves the tool.
\<close>

theorem registered_tools_return_ok:
  assumes "map_of (TOOL_REGISTRY env) n = Some tool"
    and "accepts n kwargs"
  shows "(push_returns env (notification env n kwargs) (ext w) \<longrightarrow>
            fst (tool kwargs w) = Inr (PDict [(''recorded'', PStr ''ok'')]))
       \<and> (\<not> unconfigured env
            \<and> post_result env (notification env n kwargs) (ext w) = Inl e
            \<and> e \<noteq> RequestException \<longrightarrow>
            fst (tool kwargs w) = Inl e)"
proof (intro conjI impI)
  assume "push_returns env (notification env n kwargs) (ext w)"
  with registered_tool_fst [OF assms, of w]
  show "fst (tool kwargs w) = Inr (PDict [(''recorded'', PStr ''ok'')])"
    by (simp add: recorded_ok_def)
next
  assume a: "\<not> unconfigured env
            \<and> post_result env (notification env n kwargs) (ext w) = Inl e
            \<and> e \<noteq> RequestException"
  then have "\<not> push_returns env (notification env n kwargs) (ext w)"
    by (simp add: push_returns_def answered_def)
  with registered_tool_fst [OF assms, of w] a show "fst (tool kwargs w) = Inl e" by simp
qed

theorem registered_tools_return_ok_witness:
  "map_of (TOOL_REGISTRY unkeyed_env) ''record_user_details''
     = Some (record_user_details_kw unkeyed_env)
   \<and> accepts ''record_user_details'' [(''email'', PStr ''visitor@example.org''), (''notes'', PInt 3)]
   \<and> unconfigured unkeyed_env
   \<and> fst (record_user_details_kw unkeyed_env
            [(''email'', PStr ''visitor@example.org''), (''notes'', PInt 3)] scenario_world)
       = Inr (PDict [(''recorded'', PStr ''ok'')])
   \<and> post_result scenario_env ''Recording Can I reach him directly?'' (ext scenario_world)
       = Inl RequestException
   \<and> fst (record_unknown_question_kw scenario_env
            [(''question'', PStr ''Can I reach him directly?'')] scenario_world)
       = Inr (PDict [(''recorded'', PStr ''ok'')])
   \<and> post_result delivering_env ''Recording Can I reach him directly?'' (ext scenario_world) = Inr ()
   \<and> fst (record_unknown_question_kw delivering_env
            [(''question'', PStr ''Can I reach him directly?'')] scenario_world)
       = Inr (PDict [(''recorded'', PStr ''ok'')])
   \<and> \<not> unconfigured encoding_env
   \<and> post_result encoding_env (''Recording '' @ lone_surrogate) (ext scenario_world)
       = Inl UnicodeEncodeError
   \<and> fst (record_unknown_question_kw encoding_env [(''question'', PStr lone_surrogate)] scenario_world)
       = Inl UnicodeEncodeError"
proof -
  let ?details = "[(''email'', PStr ''visitor@example.org''), (''notes'', PInt 3)]"
  let ?question = "[(''question'', PStr ''Can I reach him directly?'')]"
  have r1: "map_of (TOOL_REGISTRY unkeyed_env) ''record_user_details''
              = Some (record_user_details_kw unkeyed_env)"
    by (simp add: TOOL_REGISTRY_def)
  have a1: "accepts ''record_user_details'' ?details" by (simp add: accepts_def binds_def)
  have u1: "unconfigured unkeyed_env" unfolding unkeyed_env_def by (rule sample_unconfigured)
  have p1: "push_returns unkeyed_env (notification unkeyed_env ''record_user_details'' ?details)
              (ext scenario_world)"
    using u1 by (simp add: push_returns_def)
  have p2: "post_result scenario_env ''Recording Can I reach him directly?'' (ext scenario_world)
              = Inl RequestException"
    unfolding scenario_env_def by (rule sample_post_result)
  have q2: "push_returns scenario_env (notification scenario_env ''record_unknown_question'' ?question)
              (ext scenario_world)"
    using p2 by (simp add: push_returns_def question_notification answered_def)
  have p3: "post_result delivering_env ''Recording Can I reach him directly?'' (ext scenario_world)
              = Inr ()"
    unfolding delivering_env_def by (rule sample_post_result)
  have q3: "push_returns delivering_env (notification delivering_env ''record_unknown_question'' ?question)
              (ext scenario_world)"
    using p3 by (simp add: push_returns_def question_notification answered_def)
  have p4: "post_result encoding_env
              (notification encoding_env ''record_unknown_question'' [(''question'', PStr lone_surrogate)])
              (ext scenario_world) = Inl UnicodeEncodeError"
    by (simp add: question_notification encoding_post_result lone_surrogate_def)
  have n4: "\<not> unconfigured encoding_env" by (rule encoding_configured)
  note t1 = registered_tools_return_ok [OF r1 a1, where w = scenario_world]
  note t2 = registered_tools_return_ok [OF registry_question [of scenario_env]
      question_accepted [of "PStr ''Can I reach him directly?''"], where w = scenario_world]
  note t3 = registered_tools_return_ok [OF registry_question [of delivering_env]
      question_accepted [of "PStr ''Can I reach him directly?''"], where w = scenario_world]
  note t4 = registered_tools_return_ok [OF registry_question [of encoding_env]
      question_accepted [of "PStr lone_surrogate"], where w = scenario_world
        and e = UnicodeEncodeError]
  from t1 p1 have c1: "fst (record_user_details_kw unkeyed_env ?details scenario_world)
       = Inr (PDict [(''recorded'', PStr ''ok'')])" by blast
  from t2 q2 have c2: "fst (record_unknown_question_kw scenario_env ?question scenario_world)
       = Inr (PDict [(''recorded'', PStr ''ok'')])" by blast
  from t3 q3 have c3: "fst (record_unknown_question_kw delivering_env ?question scenario_world)
       = Inr (PDict [(''recorded'', PStr ''ok'')])" by blast
  from t4 p4 n4 have c4: "fst (record_unknown_question_kw encoding_env
            [(''question'', PStr lone_surrogate)] scenario_world) = Inl UnicodeEncodeError"
    by simp
  have p4': "post_result encoding_env (''Recording '' @ lone_surrogate) (ext scenario_world)
       = Inl UnicodeEncodeError"
    by (simp add: encoding_post_result lone_surrogate_def)
  from r1 a1 u1 c1 p2 c2 p3 c3 n4 p4' c4 show ?thesis by simp
qed

text \<open>
  C9. \<^verbatim>\<open>chat\<close> never changes the caller's history list. The buffer is a new list object,
  and every list that existed before the call holds the same elements after it, whether
  \<^verbatim>\<open>chat\<close> returns or fails. (The messages are values here: the code changes lists
  only, never a message dictionary.)
\<close>

theorem chat_leaves_history_unchanged:
  assumes "chat env self text history w = (r, w')"
  shows "length (heap w') = Suc (length (heap w))
       \<and> take (length (heap w)) (heap w') = heap w
       \<and> (history < length (heap w) \<longrightarrow> heap w' ! history = heap w ! history)"
proof -
  from chat_buffer [OF assms] obtain buffer where "heap w' = heap w @ [buffer]" by blast
  then show ?thesis by (simp add: nth_append)
qed

theorem chat_leaves_history_unchanged_witness:
  "0 < length (heap scenario_world)
   \<and> heap scenario_world ! 0 = [Msg ''user'' ''Hi'', Msg ''assistant'' ''Hello'']
   \<and> heap (snd (chat scenario_env sample_me ''Can I reach him directly?'' 0 scenario_world)) ! 0
       = [Msg ''user'' ''Hi'', Msg ''assistant'' ''Hello'']
   \<and> length (heap (snd (chat scenario_env sample_me ''Can I reach him directly?'' 0 scenario_world)))
       = 2"
proof -
  let ?c = "chat scenario_env sample_me ''Can I reach him directly?'' 0 scenario_world"
  have h: "heap scenario_world = [[Msg ''user'' ''Hi'', Msg ''assistant'' ''Hello'']]"
    by (simp add: scenario_world_def world0_def)
  have "?c = (fst ?c, snd ?c)" by simp
  from chat_leaves_history_unchanged [OF this] h show ?thesis by simp
qed

text \<open>
  C10. When a response requests a registered tool with arguments that \<^verbatim>\<open>json.loads\<close>
  rejects, or that decode to something the tool does not accept (not a dictionary, a
  missing or an unknown keyword), the exception leaves \<^verbatim>\<open>_handle_tool_calls\<close> and
  \<^verbatim>\<open>chat\<close> unhandled and is the outcome of the turn. The buffer then ends with the
  assistant message of that round: no result message was appended for the call, nor for
  the calls handled before it in the same response.
\<close>

theorem tool_call_exception_propagates:
  assumes "chat_completion env (llm_client self) (deref w a) (Some (schemas_tools env)) w = (Inr resp, w1)"
    and "choices resp = ch # chs"
    and "finish_reason ch = ''tool_calls''"
    and "tool_calls (message ch) = Some (pre @ call # post)"
    and "handle_calls env pre []
           (list_append a (AssistantMsg (content (message ch)) (Some (pre @ call # post))) w1) = (Inr rs, w2)"
    and "map_of (TOOL_REGISTRY env) (name (func call)) = Some tool"
    and "json_loads env (arguments (func call)) = Inl e
       \<or> (\<exists>args. json_loads env (arguments (func call)) = Inr args
             \<and> fst (call_kwargs tool args (log (Lookup (name (func call))) w2)) = Inl e)"
  shows "fst (chat_loop env self a (Suc n) w) = Inl e
       \<and> heap (snd (chat_loop env self a (Suc n) w))
           = (heap w)[a := heap w ! a @ [AssistantMsg (content (message ch)) (Some (pre @ call # post))]]"
proof -
  let ?m = "AssistantMsg (content (message ch)) (Some (pre @ call # post))"
  let ?w2 = "list_append a ?m w1"
  obtain r w' where l: "chat_loop env self a (Suc n) w = (r, w')"
    by (cases "chat_loop env self a (Suc n) w")
  have "fst (handle_calls env (call # post) rs w2) = Inl e"
    using assms(7)
  proof
    assume "json_loads env (arguments (func call)) = Inl e"
    with assms(6) show ?thesis by (simp add: Let_def)
  next
    assume "\<exists>args. json_loads env (arguments (func call)) = Inr args
             \<and> fst (call_kwargs tool args (log (Lookup (name (func call))) w2)) = Inl e"
    then obtain args where ld: "json_loads env (arguments (func call)) = Inr args"
      and k: "fst (call_kwargs tool args (log (Lookup (name (func call))) w2)) = Inl e" by blast
    obtain r' w4 where c: "call_kwargs tool args (log (Lookup (name (func call))) w2) = (r', w4)"
      by (cases "call_kwargs tool args (log (Lookup (name (func call))) w2)")
    with k have "r' = Inl e" by simp
    with assms(6) ld c show ?thesis by (simp add: Let_def)
  qed
  with assms(5) have "fst (handle_tool_calls env (Some (pre @ call # post)) ?w2) = Inl e"
    by (simp add: handle_tool_calls_def handle_calls_append)
  then obtain w3 where h: "handle_tool_calls env (Some (pre @ call # post)) ?w2 = (Inl e, w3)"
    by (cases "handle_tool_calls env (Some (pre @ call # post)) ?w2") simp
  with assms(1-4) l have r: "r = Inl e" "w' = w3" by (simp_all add: Let_def)
  from handle_tool_calls_untouched [of ?w2 env "Some (pre @ call # post)"] h
  have "heap w3 = heap ?w2" by (simp add: untouched_def)
  with chat_completion_effect(1) [OF assms(1)]
  have "heap w3 = (heap w)[a := heap w ! a @ [?m]]" by (simp add: list_append_def)
  with l r show ?thesis by simp
qed

theorem tool_call_exception_propagates_witness:
  "json_loads (looping_env truncated_call) (arguments (func truncated_call)) = Inl JSONDecodeError
   \<and> fst (chat_loop (looping_env truncated_call) sample_me 0 (Suc 4) (world0 [])) = Inl JSONDecodeError
   \<and> heap (snd (chat_loop (looping_env truncated_call) sample_me 0 (Suc 4) (world0 [])))
       = [[Msg ''user'' ''Hi'', Msg ''assistant'' ''Hello'', AssistantMsg None (Some [truncated_call])]]
   \<and> json_loads (looping_env empty_call) (arguments (func empty_call)) = Inr (PDict [])
   \<and> fst (chat_loop (looping_env empty_call) sample_me 0 (Suc 4) (world0 [])) = Inl TypeError
   \<and> heap (snd (chat_loop (looping_env empty_call) sample_me 0 (Suc 4) (world0 [])))
       = [[Msg ''user'' ''Hi'', Msg ''assistant'' ''Hello'', AssistantMsg None (Some [empty_call])]]"
proof -
  let ?w = "world0 [] :: response list world"
  let ?w1 = "log (Completion (deref ?w 0)) ?w"
  have hp: "heap ?w = [[Msg ''user'' ''Hi'', Msg ''assistant'' ''Hello'']]" by (simp add: world0_def)
  have first: "fst (chat_loop (looping_env call) sample_me 0 (Suc 4) ?w) = Inl e
       \<and> heap (snd (chat_loop (looping_env call) sample_me 0 (Suc 4) ?w))
           = [[Msg ''user'' ''Hi'', Msg ''assistant'' ''Hello'', AssistantMsg None (Some [call])]]"
    if r: "map_of (TOOL_REGISTRY (looping_env call)) (name (func call))
             = Some (record_unknown_question_kw (looping_env call))"
      and d: "json_loads (looping_env call) (arguments (func call)) = Inl e
         \<or> (\<exists>args. json_loads (looping_env call) (arguments (func call)) = Inr args
              \<and> fst (call_kwargs (record_unknown_question_kw (looping_env call)) args
                      (log (Lookup (name (func call)))
                         (list_append 0 (AssistantMsg None (Some ([] @ call # []))) ?w1))) = Inl e)"
    for call e
  proof -
    let ?ch = "\<lparr>finish_reason = ''tool_calls'', message = \<lparr>content = None, tool_calls = Some [call]\<rparr>\<rparr>"
    let ?w2 = "list_append 0 (AssistantMsg (content (message ?ch)) (Some ([] @ call # []))) ?w1"
    have c: "chat_completion (looping_env call) (llm_client sample_me) (deref ?w 0)
               (Some (schemas_tools (looping_env call))) ?w = (Inr (tools_response [call]), ?w1)"
      by (rule looping_completion)
    have s: "choices (tools_response [call]) = ?ch # []" by (rule tools_response_sel)
    have f: "finish_reason ?ch = ''tool_calls''" by simp
    have t: "tool_calls (message ?ch) = Some ([] @ call # [])" by simp
    have p: "handle_calls (looping_env call) [] [] ?w2 = (Inr [], ?w2)" by simp
    from d have d': "json_loads (looping_env call) (arguments (func call)) = Inl e
         \<or> (\<exists>args. json_loads (looping_env call) (arguments (func call)) = Inr args
              \<and> fst (call_kwargs (record_unknown_question_kw (looping_env call)) args
                      (log (Lookup (name (func call))) ?w2)) = Inl e)"
      by simp
    from tool_call_exception_propagates [OF c s f t p r d', of 4] hp show ?thesis by simp
  qed
  have l1: "json_loads (looping_env truncated_call) (arguments (func truncated_call)) = Inl JSONDecodeError"
    by (simp add: truncated_call_def looping_env_def sample_env_fields sample_loads_truncated)
  have r1: "map_of (TOOL_REGISTRY (looping_env truncated_call)) (name (func truncated_call))
             = Some (record_unknown_question_kw (looping_env truncated_call))"
    by (simp add: truncated_call_def registry_question)
  have l2: "json_loads (looping_env empty_call) (arguments (func empty_call)) = Inr (PDict [])"
    by (simp add: empty_call_def looping_env_def sample_env_fields sample_loads_def question_args_def)
  have r2: "map_of (TOOL_REGISTRY (looping_env empty_call)) (name (func empty_call))
             = Some (record_unknown_question_kw (looping_env empty_call))"
    by (simp add: empty_call_def registry_question)
  have k2: "fst (call_kwargs (record_unknown_question_kw (looping_env empty_call)) (PDict []) w') = Inl TypeError"
    for w'
    by (simp add: call_kwargs_def question_kw_rejects_empty)
  from first [OF r1, of JSONDecodeError] l1
  have a: "fst (chat_loop (looping_env truncated_call) sample_me 0 (Suc 4) ?w) = Inl JSONDecodeError
       \<and> heap (snd (chat_loop (looping_env truncated_call) sample_me 0 (Suc 4) ?w))
           = [[Msg ''user'' ''Hi'', Msg ''assistant'' ''Hello'', AssistantMsg None (Some [truncated_call])]]"
    by simp
  from first [OF r2, of TypeError] l2 k2
  have b: "fst (chat_loop (looping_env empty_call) sample_me 0 (Suc 4) ?w) = Inl TypeError
       \<and> heap (snd (chat_loop (looping_env empty_call) sample_me 0 (Suc 4) ?w))
           = [[Msg ''user'' ''Hi'', Msg ''assistant'' ''Hello'', AssistantMsg None (Some [empty_call])]]"
    by simp
  from a b l1 l2 show ?thesis by simp
qed

end
